theory Spec2Isabelle
  imports Main "HOL-Library.AList" "HOL-Library.List_Lexorder"
begin

section \<open>Strings, characters and dictionaries of the Python source\<close>

text \<open>
  A Python \<open>str\<close> is a sequence of Unicode code points, so a string is modelled as the
  list of its code points. \<open>py\<close> embeds an ASCII literal.
\<close>

type_synonym pystr = "nat list"

definition py :: "string \<Rightarrow> pystr" where
  "py s = map of_char s"

text \<open>The character classes that the three regular expressions of the source use.\<close>

definition is_upper :: "nat \<Rightarrow> bool" where
  "is_upper c = (65 \<le> c \<and> c \<le> 90)"

definition is_lower :: "nat \<Rightarrow> bool" where
  "is_lower c = (97 \<le> c \<and> c \<le> 122)"

definition is_ascii_digit :: "nat \<Rightarrow> bool" where
  "is_ascii_digit c = (48 \<le> c \<and> c \<le> 57)"

text \<open>
  \<open>\d\<close> in a \<open>str\<close> pattern compiled without \<open>re.ASCII\<close> matches every character of the
  Unicode category Nd. The table below lists the first code point of every run of ten
  decimal digits of Unicode 15 (the database of Python 3.12, the first version that
  accepts the nested quotes of the f-strings in lines 48 and 174 of the source).
\<close>

definition unicode_Nd_zeros :: "nat list" where
  "unicode_Nd_zeros =
    [0x30, 0x660, 0x6F0, 0x7C0, 0x966, 0x9E6, 0xA66, 0xAE6, 0xB66, 0xBE6, 0xC66, 0xCE6,
     0xD66, 0xDE6, 0xE50, 0xED0, 0xF20, 0x1040, 0x1090, 0x17E0, 0x1810, 0x1946, 0x19D0,
     0x1A80, 0x1A90, 0x1B50, 0x1BB0, 0x1C40, 0x1C50, 0xA620, 0xA8D0, 0xA900, 0xA9D0,
     0xA9F0, 0xAA50, 0xABF0, 0xFF10, 0x104A0, 0x10D30, 0x11066, 0x110F0, 0x11136,
     0x111D0, 0x112F0, 0x11450, 0x114D0, 0x11650, 0x116C0, 0x11730, 0x118E0, 0x11950,
     0x11C50, 0x11D50, 0x11DA0, 0x11F50, 0x16A60, 0x16AC0, 0x16B50, 0x1D7CE, 0x1D7D8,
     0x1D7E2, 0x1D7EC, 0x1D7F6, 0x1E140, 0x1E2F0, 0x1E4F0, 0x1E950, 0x1FBF0]"

definition is_decimal :: "nat \<Rightarrow> bool" where
  "is_decimal c = list_ex (\<lambda>z. z \<le> c \<and> c < z + 10) unicode_Nd_zeros"

definition is_alnum :: "nat \<Rightarrow> bool" where
  \<comment> \<open>the class \<open>[A-Za-z0-9]\<close>\<close>
  "is_alnum c = (is_upper c \<or> is_lower c \<or> is_ascii_digit c)"

definition is_lower_or_digit :: "nat \<Rightarrow> bool" where
  \<comment> \<open>the class \<open>[a-z0-9]\<close>\<close>
  "is_lower_or_digit c = (is_lower c \<or> is_ascii_digit c)"

text \<open>
  \<open>str.lower()\<close> is applied by the source only to text made of the characters
  \<open>A-Z\<close>, \<open>a-z\<close>, decimal digits and the hyphen; among these it changes the capital
  letters and nothing else (a decimal digit has no case mapping).
\<close>

definition lower_char :: "nat \<Rightarrow> nat" where
  "lower_char c = (if is_upper c then c + 32 else c)"

definition lower :: "pystr \<Rightarrow> pystr" where
  "lower s = map lower_char s"

fun join :: "pystr \<Rightarrow> pystr list \<Rightarrow> pystr" where
  "join sep [] = []"
| "join sep [x] = x"
| "join sep (x # y # ys) = x @ sep @ join sep (y # ys)"

definition startswith :: "pystr \<Rightarrow> pystr \<Rightarrow> bool" where
  "startswith s p = (take (length p) s = p)"

text \<open>
  A \<open>dict\<close> keeps its keys in insertion order: an association list without duplicate
  keys. \<open>d[k] = v\<close> is \<open>AList.update k v d\<close> (it overwrites in place or appends),
  \<open>d.get(k)\<close> is \<open>map_of d k\<close>.
\<close>

type_synonym ('k, 'v) dict = "('k \<times> 'v) list"

definition dict_get :: "('k, 'v) dict \<Rightarrow> 'k \<Rightarrow> 'v \<Rightarrow> 'v" where
  "dict_get d k dflt = (case map_of d k of None \<Rightarrow> dflt | Some v \<Rightarrow> v)"

definition dict_in :: "'k \<Rightarrow> ('k, 'v) dict \<Rightarrow> bool" where
  "dict_in k d = (map_of d k \<noteq> None)"

text \<open>
  The exceptions that can leave a function of the source: \<open>ValueError\<close> with its message
  (raised by \<open>convertIngredientList\<close> and by the builtin \<open>chr\<close>) and the \<open>SystemExit\<close>
  of \<open>sys.exit\<close> with its status.
\<close>

datatype exn = ValueError pystr | SystemExit nat

definition chr :: "nat \<Rightarrow> exn + nat" where
  \<comment> \<open>the builtin \<open>chr\<close>: defined on \<open>range(0x110000)\<close>\<close>
  "chr n = (if n < 0x110000 then Inr n
            else Inl (ValueError (py ''chr() arg not in range(0x110000)'')))"

section \<open>The three regular expressions\<close>

text \<open>
  \<open>REX_CoDNaming = [A-Z][a-z]+|[A-Z]{2,}|\d[A-Z]?\<close> under \<open>findall\<close>: at each position the
  alternatives are tried in order, every quantifier is greedy, nothing follows a
  quantifier inside an alternative (so no backtracking shortens a match), and a
  position where no alternative matches is passed over.
\<close>

function findall_CoDNaming :: "pystr \<Rightarrow> pystr list" where
  "findall_CoDNaming [] = []"
| "findall_CoDNaming (c # cs) =
     (if is_upper c \<and> cs \<noteq> [] \<and> is_lower (hd cs)
        then (c # takeWhile is_lower cs) # findall_CoDNaming (dropWhile is_lower cs)
      else if is_upper c \<and> cs \<noteq> [] \<and> is_upper (hd cs)
        then (c # takeWhile is_upper cs) # findall_CoDNaming (dropWhile is_upper cs)
      else if is_decimal c
        then (case cs of
                [] \<Rightarrow> [[c]]
              | d # ds \<Rightarrow> if is_upper d then [c, d] # findall_CoDNaming ds
                         else [c] # findall_CoDNaming cs)
      else findall_CoDNaming cs)"
  by pat_completeness auto
termination
  by (relation "measure length") (auto simp: less_Suc_eq_le length_dropWhile_le)

text \<open>
  \<open>REX_Product = Product_(Virtual_)?([A-Za-z0-9]+)\<close> under \<open>match\<close> (anchored at the start
  only); the result is group 2. The optional group is tried first; when no
  alphanumeric character follows \<open>Virtual_\<close> the matcher backtracks and group 2 starts
  right after \<open>Product_\<close>.
\<close>

definition match_Product :: "pystr \<Rightarrow> pystr option" where
  "match_Product s =
     (if \<not> startswith s (py ''Product_'') then None
      else let rest = drop 8 s in
        if startswith rest (py ''Virtual_'') \<and> takeWhile is_alnum (drop 8 rest) \<noteq> []
          then Some (takeWhile is_alnum (drop 8 rest))
        else if takeWhile is_alnum rest \<noteq> [] then Some (takeWhile is_alnum rest)
        else None)"

text \<open>
  \<open>REX_ProdType = ([A-Z][a-z0-9]+)ProductProto\<close> under \<open>match\<close>; the result is group 1.
  The literal starts with a capital letter, which is not in \<open>[a-z0-9]\<close>, so only the
  longest run of \<open>[a-z0-9]\<close> can be followed by it.
\<close>

definition match_ProdType :: "pystr \<Rightarrow> pystr option" where
  "match_ProdType s =
     (case s of
        [] \<Rightarrow> None
      | c # cs \<Rightarrow>
          if is_upper c \<and> takeWhile is_lower_or_digit cs \<noteq> []
             \<and> startswith (dropWhile is_lower_or_digit cs) (py ''ProductProto'')
          then Some (c # takeWhile is_lower_or_digit cs)
          else None)"

definition convertCod2FL :: "pystr \<Rightarrow> pystr" where
  "convertCod2FL codName = lower (join (py ''-'') (findall_CoDNaming codName))"

section \<open>The two input documents\<close>

text \<open>
  The documents are the values that \<open>json.load\<close> returns. Their shape is the one the
  source reads (every key it subscripts is a field); numbers are integers.
\<close>

record raw_product =
  rp_type :: pystr
  rp_id :: pystr
  rp_name :: pystr
  rp_icon_path :: pystr

record products_doc =
  pd_game_version :: pystr
  pd_products :: "raw_product list"

record ingredient =
  ing_name :: pystr
  ing_quantity :: int

record raw_recipe =
  rr_id :: pystr
  rr_name :: pystr
  rr_duration :: int
  rr_inputs :: "ingredient list"
  rr_outputs :: "ingredient list"

record raw_building =
  rb_id :: pystr
  rb_name :: pystr
  rb_workers :: int
  rb_electricity_consumed :: int
  rb_maintenance_cost_units :: pystr
  rb_maintenance_cost_quantity :: int
  rb_icon_path :: pystr
  rb_recipes :: "raw_recipe list"

record buildings_doc =
  bd_game_version :: pystr
  bd_machines_and_buildings :: "raw_building list"

section \<open>The module-level accumulators\<close>

record product =
  prod_id :: pystr
  prod_name :: pystr
  prod_type :: pystr

record icon =
  icon_id :: pystr
  icon_src :: pystr

record building =
  bld_id :: pystr
  bld_name :: pystr
  bld_category :: pystr
  bld_speed :: int
  bld_consumption :: "(pystr, int) dict"

record recipe =
  rec_id :: pystr
  rec_name :: pystr
  rec_time :: int
  rec_producers :: "pystr list"
  rec_row :: int
  rec_icon :: pystr
  rec_in :: "(pystr, int) dict"
  rec_out :: "(pystr, int) dict"

text \<open>What the \<open>print\<close> calls of the source write, one constructor per format string.\<close>

datatype message =
    Strange_product_type pystr
  | Strange_product_ID pystr
  | Duplicate_product_ID pystr
  | Duplicate_name pystr
  | Duplicate_building_ID pystr
  | Unknown_maintenance_unit pystr pystr
  | ValueError_caught pystr

record state =
  ids :: "pystr set"
  iconList :: "icon list"
  prodList :: "product list"
  prodIndex :: "(pystr, pystr) dict"
  mnbList :: "building list"
  recipeIds :: "(pystr, nat) dict"
  recipeList :: "recipe list"
  printed :: "message list"

definition print :: "message \<Rightarrow> state \<Rightarrow> state" where
  "print m st = st\<lparr>printed := printed st @ [m]\<rparr>"

definition PRODUCT_TYPES :: "(pystr, pystr \<times> pystr) dict" where
  "PRODUCT_TYPES =
    [(py ''Countable'', (py ''Unit resources'', py ''iron'')),
     (py ''Fluid'', (py ''Fluid resources'', py ''water'')),
     (py ''Loose'', (py ''Loose resources'', py ''gravel'')),
     (py ''Molten'', (py ''Molten resources'', py ''molten-iron'')),
     (py ''Virtual'', (py ''Virtual resources'', py ''maintenance-1''))]"

definition DEFAULT_PRODUCTS :: "(pystr, pystr) dict" where
  "DEFAULT_PRODUCTS = [(py ''worker'', py ''Workers'')]"

definition initial_state :: state where
  \<comment> \<open>lines 90 to 96\<close>
  "initial_state =
     \<lparr>ids = {}, iconList = [], prodList = [], prodIndex = [], mnbList = [],
      recipeIds = [], recipeList = [], printed = []\<rparr>"

definition add_default :: "pystr \<times> pystr \<Rightarrow> state \<Rightarrow> state" where
  \<comment> \<open>lines 100 and 101\<close>
  "add_default d st =
     st\<lparr>prodList := prodList st @ [\<lparr>prod_id = fst d, prod_name = snd d, prod_type = py ''virtual''\<rparr>],
        prodIndex := AList.update (snd d) (fst d) (prodIndex st)\<rparr>"

definition add_defaults :: "state \<Rightarrow> state" where
  "add_defaults st = fold add_default DEFAULT_PRODUCTS st"

section \<open>Reading the products\<close>

definition process_product :: "raw_product \<Rightarrow> state \<Rightarrow> state" where
  \<comment> \<open>the body of the loop of line 108\<close>
  "process_product item st =
     (case match_ProdType (rp_type item) of
        None \<Rightarrow> print (Strange_product_type (rp_type item)) st
      | Some g1 \<Rightarrow>
          if \<not> dict_in g1 PRODUCT_TYPES then print (Strange_product_type (rp_type item)) st
          else
            (case match_Product (rp_id item) of
               None \<Rightarrow> print (Strange_product_ID (rp_id item)) st
             | Some g2 \<Rightarrow>
                 let flabID = convertCod2FL g2 in
                 if flabID \<in> ids st then print (Duplicate_product_ID flabID) st
                 else
                   let r = \<lparr>prod_id = flabID, prod_name = rp_name item, prod_type = lower g1\<rparr>;
                       st1 = st\<lparr>prodList := prodList st @ [r]\<rparr>
                   in
                     if dict_in (rp_name item) (prodIndex st1)
                       then print (Duplicate_name (rp_name item)) st1
                     else
                       st1\<lparr>prodIndex := AList.update (rp_name item) flabID (prodIndex st1),
                           iconList := iconList st1 @ [\<lparr>icon_id = flabID, icon_src = rp_icon_path item\<rparr>]\<rparr>))"

definition read_products :: "products_doc \<Rightarrow> state \<Rightarrow> state" where
  "read_products inData st = fold process_product (pd_products inData) st"

section \<open>Resolving ingredients\<close>

fun convertIngredientList_loop ::
  "(pystr, pystr) dict \<Rightarrow> ingredient list \<Rightarrow> (pystr, int) dict \<Rightarrow> exn + (pystr, int) dict" where
  "convertIngredientList_loop idx [] ret = Inr ret"
| "convertIngredientList_loop idx (ingredient # rest) ret =
     (case map_of idx (ing_name ingredient) of
        None \<Rightarrow> Inl (ValueError (py ''Unknown ingredient: '' @ ing_name ingredient))
      | Some prodID \<Rightarrow>
          convertIngredientList_loop idx rest (AList.update prodID (ing_quantity ingredient) ret))"

definition convertIngredientList ::
  "(pystr, pystr) dict \<Rightarrow> ingredient list \<Rightarrow> exn + (pystr, int) dict" where
  \<comment> \<open>the first argument is the global \<open>prodIndex\<close> that the source reads\<close>
  "convertIngredientList idx ingredients = convertIngredientList_loop idx ingredients []"

section \<open>Reading machines, buildings and recipes\<close>

definition next_recipe_id :: "pystr \<Rightarrow> state \<Rightarrow> exn + (pystr \<times> state)" where
  \<comment> \<open>lines 189 to 197; \<open>chr\<close> is called outside the \<open>try\<close>\<close>
  "next_recipe_id rid st =
     (let rID = convertCod2FL rid;
          rCnt = dict_get (recipeIds st) rID 0
      in
        if rCnt > 0 then
          (let rCnt = rCnt + 1;
               st1 = st\<lparr>recipeIds := AList.update rID rCnt (recipeIds st)\<rparr>
           in case chr (95 + rCnt) of
                Inl e \<Rightarrow> Inl e
              | Inr ch \<Rightarrow> Inr (rID @ py ''-'' @ [ch], st1))
        else Inr (rID, st\<lparr>recipeIds := AList.update rID 1 (recipeIds st)\<rparr>))"

definition process_recipe :: "pystr \<Rightarrow> raw_recipe \<Rightarrow> state \<Rightarrow> exn + state" where
  \<comment> \<open>the body of the loop of line 188\<close>
  "process_recipe flabID rcp st =
     (case next_recipe_id (rr_id rcp) st of
        Inl e \<Rightarrow> Inl e
      | Inr (rID, st1) \<Rightarrow>
          (case convertIngredientList (prodIndex st1) (rr_inputs rcp) of
             Inl (ValueError e) \<Rightarrow> Inr (print (ValueError_caught e) st1)
           | Inl (SystemExit n) \<Rightarrow> Inl (SystemExit n)
           | Inr r_in \<Rightarrow>
               (case convertIngredientList (prodIndex st1) (rr_outputs rcp) of
                  Inl (ValueError e) \<Rightarrow> Inr (print (ValueError_caught e) st1)
                | Inl (SystemExit n) \<Rightarrow> Inl (SystemExit n)
                | Inr r_out \<Rightarrow>
                    if r_out \<noteq> [] then
                      Inr (st1\<lparr>recipeList := recipeList st1 @
                             [\<lparr>rec_id = rID, rec_name = rr_name rcp, rec_time = rr_duration rcp,
                               rec_producers = [flabID], rec_row = 0, rec_icon = flabID,
                               rec_in = r_in, rec_out = r_out\<rparr>]\<rparr>)
                    else Inr st1)))"

fun process_recipes :: "pystr \<Rightarrow> raw_recipe list \<Rightarrow> state \<Rightarrow> exn + state" where
  "process_recipes flabID [] st = Inr st"
| "process_recipes flabID (rcp # rest) st =
     (case process_recipe flabID rcp st of
        Inl e \<Rightarrow> Inl e
      | Inr st1 \<Rightarrow> process_recipes flabID rest st1)"

definition consumption :: "(pystr, pystr) dict \<Rightarrow> raw_building \<Rightarrow> (pystr, int) dict option" where
  \<comment> \<open>lines 162 to 176; \<open>None\<close> when the maintenance unit is not in the index\<close>
  "consumption idx item =
     (let r_cons = [];
          r_cons = (if rb_workers item > 0
                    then AList.update (py ''worker'') (rb_workers item) r_cons else r_cons);
          r_cons = (if rb_electricity_consumed item > 0
                    then AList.update (py ''electricity'') (rb_electricity_consumed item) r_cons
                    else r_cons);
          unit = rb_maintenance_cost_units item
      in
        if unit \<noteq> [] then
          (case map_of idx unit of
             None \<Rightarrow> None
           | Some u \<Rightarrow> Some (AList.update u (rb_maintenance_cost_quantity item) r_cons))
        else Some r_cons)"

definition process_building :: "raw_building \<Rightarrow> state \<Rightarrow> exn + state" where
  \<comment> \<open>the body of the loop of line 148\<close>
  "process_building item st =
     (let flabID = convertCod2FL (rb_id item) in
      if flabID \<in> ids st then Inr (print (Duplicate_building_ID flabID) st)
      else
        (case consumption (prodIndex st) item of
           None \<Rightarrow>
             Inr (print (Unknown_maintenance_unit (rb_maintenance_cost_units item) flabID) st)
         | Some r_cons \<Rightarrow>
             let r = \<lparr>bld_id = flabID, bld_name = rb_name item, bld_category = py ''buildings'',
                      bld_speed = 1, bld_consumption = r_cons\<rparr>;
                 st1 = st\<lparr>mnbList := mnbList st @ [r],
                         iconList := iconList st @ [\<lparr>icon_id = flabID, icon_src = rb_icon_path item\<rparr>]\<rparr>
             in process_recipes flabID (rb_recipes item) st1))"

fun process_buildings :: "raw_building list \<Rightarrow> state \<Rightarrow> exn + state" where
  "process_buildings [] st = Inr st"
| "process_buildings (item # rest) st =
     (case process_building item st of
        Inl e \<Rightarrow> Inl e
      | Inr st1 \<Rightarrow> process_buildings rest st1)"

section \<open>Preparing the output\<close>

record category =
  cat_id :: pystr
  cat_name :: pystr
  cat_icon :: pystr

record icon_entry =
  ie_id :: pystr
  ie_position :: pystr
  ie_color :: pystr

datatype item =
    Product_item (item_id: pystr) (item_name: pystr) (item_category: pystr) (item_row: int)
  | Building_item building

fun id_of_item :: "item \<Rightarrow> pystr" where
  "id_of_item (Product_item i n c r) = i"
| "id_of_item (Building_item b) = bld_id b"

record output_doc =
  out_version :: pystr
  out_categories :: "category list"
  out_icons :: "icon_entry list"
  out_items :: "item list"
  out_recipes :: "recipe list"

definition getCategories :: "category list" where
  "getCategories =
     map (\<lambda>(key, data). \<lparr>cat_id = lower key, cat_name = fst data, cat_icon = snd data\<rparr>)
       PRODUCT_TYPES"

function decimal :: "nat \<Rightarrow> pystr" where
  \<comment> \<open>how an f-string renders a non-negative integer\<close>
  "decimal n = (if n < 10 then [48 + n] else decimal (n div 10) @ [48 + n mod 10])"
  by pat_completeness auto
termination
  by (relation "measure id") auto

fun getIcons_loop :: "nat \<Rightarrow> icon list \<Rightarrow> icon_entry list" where
  "getIcons_loop cnt [] = []"
| "getIcons_loop cnt (ic # rest) =
     \<lparr>ie_id = icon_id ic,
      ie_position = py ''-'' @ decimal (cnt mod 1216) @ py ''px -''
                    @ decimal ((cnt div 1216) * 64) @ py ''px'',
      ie_color = py ''#000000''\<rparr>
     # getIcons_loop (cnt + 40) rest"

definition getIcons :: "state \<Rightarrow> icon_entry list" where
  \<comment> \<open>\<open>sorted\<close> is stable and compares strings code point by code point\<close>
  "getIcons st = getIcons_loop 0 (sort_key icon_id (iconList st))"

definition getItems :: "state \<Rightarrow> item list" where
  "getItems st =
     map (\<lambda>x. Product_item (prod_id x) (prod_name x) (prod_type x) 0) (prodList st)
     @ map Building_item (mnbList st)"

definition make_output :: "pystr \<Rightarrow> state \<Rightarrow> output_doc" where
  \<comment> \<open>lines 216 to 223\<close>
  "make_output version st =
     \<lparr>out_version = version, out_categories = getCategories, out_icons = getIcons st,
      out_items = getItems st, out_recipes = recipeList st\<rparr>"

section \<open>The whole run\<close>

text \<open>
  \<open>run_state\<close> is the module body up to line 213: the accumulators after both documents
  are read, or the exception that ended the run (the line printed before \<open>sys.exit\<close> is
  not kept). \<open>main\<close> is the whole module: \<open>Inr\<close> carries the document that lines 225
  and 226 write to \<open>data.json\<close>; with \<open>Inl\<close> the run ended before line 225 and nothing
  is written.
\<close>

definition run_state :: "products_doc \<Rightarrow> buildings_doc \<Rightarrow> exn + state" where
  "run_state pd bd =
     (let st = read_products pd (add_defaults initial_state);
          version = pd_game_version pd
      in
        if bd_game_version bd \<noteq> version then Inl (SystemExit 1)
        else process_buildings (bd_machines_and_buildings bd) st)"

definition main :: "products_doc \<Rightarrow> buildings_doc \<Rightarrow> exn + output_doc" where
  "main pd bd =
     (case run_state pd bd of
        Inl e \<Rightarrow> Inl e
      | Inr st \<Rightarrow> Inr (make_output (pd_game_version pd) st))"

definition exit_status :: "exn + 'a \<Rightarrow> nat" where
  \<comment> \<open>an uncaught exception other than \<open>SystemExit\<close> ends the interpreter with status 1\<close>
  "exit_status r = (case r of Inl (SystemExit n) \<Rightarrow> n | Inl (ValueError m) \<Rightarrow> 1 | Inr x \<Rightarrow> 0)"

section \<open>Notions used to state the properties\<close>

definition ok_char :: "nat \<Rightarrow> bool" where
  \<comment> \<open>the class \<open>[a-z0-9-]\<close>\<close>
  "ok_char c = (is_lower c \<or> is_ascii_digit c \<or> c = 45)"

definition ascii_decimals :: "pystr \<Rightarrow> bool" where
  \<comment> \<open>every decimal digit of the string is one of \<open>0\<close> to \<open>9\<close>\<close>
  "ascii_decimals s = list_all (\<lambda>c. is_ascii_digit c \<or> \<not> is_decimal c) s"

definition recipes_of :: "exn + output_doc \<Rightarrow> recipe list option" where
  \<comment> \<open>the recipe list of the output document, when there is one\<close>
  "recipes_of r = (case r of Inl e \<Rightarrow> None | Inr out \<Rightarrow> Some (out_recipes out))"

definition items_of :: "exn + output_doc \<Rightarrow> item list option" where
  \<comment> \<open>the item list of the output document, when there is one\<close>
  "items_of r = (case r of Inl e \<Rightarrow> None | Inr out \<Rightarrow> Some (out_items out))"

definition resolved_pairs :: "(pystr, pystr) dict \<Rightarrow> ingredient list \<Rightarrow> (pystr \<times> int) list" where
  \<comment> \<open>each entry as its product id and quantity, for a list whose names are all in the index\<close>
  "resolved_pairs idx ings = map (\<lambda>i. (the (map_of idx (ing_name i)), ing_quantity i)) ings"

definition counter :: "state \<Rightarrow> pystr \<Rightarrow> nat" where
  \<comment> \<open>\<open>recipeIds.get(r, 0)\<close>\<close>
  "counter st r = dict_get (recipeIds st) r 0"

definition resolves :: "(pystr, pystr) dict \<Rightarrow> ingredient list \<Rightarrow> bool" where
  \<comment> \<open>every name of the list is in the index\<close>
  "resolves idx ings = list_all (\<lambda>i. dict_in (ing_name i) idx) ings"

definition resolved :: "(pystr, pystr) dict \<Rightarrow> ingredient list \<Rightarrow> (pystr, int) dict" where
  \<comment> \<open>the dictionary from product id to quantity of a list that resolves\<close>
  "resolved idx ings =
     fold (\<lambda>i. AList.update (the (map_of idx (ing_name i))) (ing_quantity i)) ings []"

definition retained :: "(pystr, pystr) dict \<Rightarrow> raw_recipe \<Rightarrow> bool" where
  \<comment> \<open>inputs and outputs resolve and the resolved output map is not empty\<close>
  "retained idx rcp =
     (resolves idx (rr_inputs rcp) \<and> resolves idx (rr_outputs rcp)
      \<and> resolved idx (rr_outputs rcp) \<noteq> [])"

definition emitted :: "pystr \<Rightarrow> pystr \<Rightarrow> (pystr, pystr) dict \<Rightarrow> raw_recipe \<Rightarrow> recipe" where
  \<comment> \<open>the recipe record of a retained recipe of building \<open>flabID\<close> under the id \<open>rID\<close>\<close>
  "emitted flabID rID idx rcp =
     \<lparr>rec_id = rID, rec_name = rr_name rcp, rec_time = rr_duration rcp,
      rec_producers = [flabID], rec_row = 0, rec_icon = flabID,
      rec_in = resolved idx (rr_inputs rcp), rec_out = resolved idx (rr_outputs rcp)\<rparr>"

definition disambiguated :: "pystr \<Rightarrow> nat \<Rightarrow> pystr" where
  \<comment> \<open>the id of the \<open>n\<close>-th occurrence of the normalized id \<open>r\<close>; 95 + n is the code point that \<open>chr(95 + n)\<close> denotes\<close>
  "disambiguated r n = (if n \<le> 1 then r else r @ py ''-'' @ [95 + n])"

definition norm_id :: "pystr \<times> raw_recipe \<Rightarrow> pystr" where
  \<comment> \<open>the normalized id of a recipe paired with the id of its building\<close>
  "norm_id x = convertCod2FL (rr_id (snd x))"

fun spec_recipes ::
  "(pystr, pystr) dict \<Rightarrow> (pystr \<Rightarrow> nat) \<Rightarrow> (pystr \<times> raw_recipe) list \<Rightarrow> recipe list" where
  \<comment> \<open>the recipes emitted for a sequence of encountered recipes, from the occurrence counts \<open>cnt\<close>\<close>
  "spec_recipes idx cnt [] = []"
| "spec_recipes idx cnt (x # rest) =
     (if retained idx (snd x)
      then [emitted (fst x) (disambiguated (norm_id x) (Suc (cnt (norm_id x)))) idx (snd x)]
      else [])
     @ spec_recipes idx (cnt(norm_id x := Suc (cnt (norm_id x)))) rest"

definition accepted :: "pystr set \<Rightarrow> (pystr, pystr) dict \<Rightarrow> raw_building \<Rightarrow> bool" where
  \<comment> \<open>the building passes the test of line 153 and its maintenance unit, if any, is in the index\<close>
  "accepted used idx item =
     (convertCod2FL (rb_id item) \<notin> used \<and> consumption idx item \<noteq> None)"

definition encountered ::
  "pystr set \<Rightarrow> (pystr, pystr) dict \<Rightarrow> raw_building list \<Rightarrow> (pystr \<times> raw_recipe) list" where
  \<comment> \<open>the recipes of the accepted buildings in encounter order, each with the id of its building\<close>
  "encountered used idx bs =
     concat (map (\<lambda>b. map (Pair (convertCod2FL (rb_id b))) (rb_recipes b))
                 (filter (accepted used idx) bs))"

definition building_of :: "(pystr, pystr) dict \<Rightarrow> raw_building \<Rightarrow> building" where
  \<comment> \<open>the building record of an accepted building\<close>
  "building_of idx item =
     \<lparr>bld_id = convertCod2FL (rb_id item), bld_name = rb_name item,
      bld_category = py ''buildings'', bld_speed = 1,
      bld_consumption = the (consumption idx item)\<rparr>"

definition icon_of :: "raw_building \<Rightarrow> icon" where
  \<comment> \<open>the icon entry of a building\<close>
  "icon_of item = \<lparr>icon_id = convertCod2FL (rb_id item), icon_src = rb_icon_path item\<rparr>"

definition same_catalog :: "state \<Rightarrow> state \<Rightarrow> bool" where
  \<comment> \<open>the accumulators that the recipe loop does not write are equal\<close>
  "same_catalog st st' =
     (ids st' = ids st \<and> iconList st' = iconList st \<and> prodList st' = prodList st
      \<and> prodIndex st' = prodIndex st \<and> mnbList st' = mnbList st)"

fun with_icon :: "pystr list \<Rightarrow> product list \<Rightarrow> product list" where
  \<comment> \<open>the products whose display name is neither in \<open>seen\<close> nor borne by an earlier product\<close>
  "with_icon seen [] = []"
| "with_icon seen (p # ps) =
     (if prod_name p \<in> set seen then [] else [p]) @ with_icon (prod_name p # seen) ps"

definition file_products :: "state \<Rightarrow> product list" where
  \<comment> \<open>the product list without the seeded defaults at its head\<close>
  "file_products st = drop (length DEFAULT_PRODUCTS) (prodList st)"

definition product_ids :: "state \<Rightarrow> pystr list" where
  \<comment> \<open>the ids of the product list, in order\<close>
  "product_ids st = map prod_id (prodList st)"

definition icon_ids :: "state \<Rightarrow> pystr list" where
  \<comment> \<open>the ids of the icon list, in order\<close>
  "icon_ids st = map icon_id (iconList st)"


definition products_inv :: "state \<Rightarrow> bool" where
  \<comment> \<open>what holds of the accumulators while the products are read\<close>
  "products_inv st =
     (take (length DEFAULT_PRODUCTS) (prodList st)
        = map (\<lambda>d. \<lparr>prod_id = fst d, prod_name = snd d, prod_type = py ''virtual''\<rparr>) DEFAULT_PRODUCTS
      \<and> length DEFAULT_PRODUCTS \<le> length (prodList st)
      \<and> fst ` set (prodIndex st) = set (map prod_name (prodList st))
      \<and> map icon_id (iconList st)
          = map prod_id (with_icon (map snd DEFAULT_PRODUCTS) (file_products st))
      \<and> ids st = {} \<and> mnbList st = [] \<and> recipeIds st = [] \<and> recipeList st = [])"

section \<open>Example documents\<close>

text \<open>Three products, two of them named Iron, and four buildings with their recipes.\<close>

definition ex_iron :: raw_product where
  "ex_iron = \<lparr>rp_type = py ''CountableProductProto'', rp_id = py ''Product_Iron'',
               rp_name = py ''Iron'', rp_icon_path = py ''iron.png''\<rparr>"

definition ex_steel :: raw_product where
  "ex_steel = \<lparr>rp_type = py ''CountableProductProto'', rp_id = py ''Product_Steel'',
                rp_name = py ''Iron'', rp_icon_path = py ''steel.png''\<rparr>"

definition ex_coal :: raw_product where
  "ex_coal = \<lparr>rp_type = py ''LooseProductProto'', rp_id = py ''Product_Coal'',
               rp_name = py ''Coal'', rp_icon_path = py ''coal.png''\<rparr>"

definition ex_products :: products_doc where
  "ex_products =
     \<lparr>pd_game_version = py ''0.5'', pd_products = [ex_iron, ex_steel, ex_coal]\<rparr>"

definition ex_smelter :: raw_building where
  "ex_smelter =
     \<lparr>rb_id = py ''SmelterT1'', rb_name = py ''Smelter'', rb_workers = 2,
      rb_electricity_consumed = 0, rb_maintenance_cost_units = [],
      rb_maintenance_cost_quantity = 0, rb_icon_path = py ''smelter.png'',
      rb_recipes =
        [\<lparr>rr_id = py ''SmeltIron'', rr_name = py ''first'', rr_duration = 20,
          rr_inputs = [\<lparr>ing_name = py ''Coal'', ing_quantity = 1\<rparr>],
          rr_outputs = [\<lparr>ing_name = py ''Iron'', ing_quantity = 2\<rparr>]\<rparr>,
         \<lparr>rr_id = py ''SmeltIron'', rr_name = py ''second'', rr_duration = 20,
          rr_inputs = [\<lparr>ing_name = py ''Slag'', ing_quantity = 1\<rparr>],
          rr_outputs = [\<lparr>ing_name = py ''Iron'', ing_quantity = 2\<rparr>]\<rparr>,
         \<lparr>rr_id = py ''SmeltIron'', rr_name = py ''third'', rr_duration = 20,
          rr_inputs = [],
          rr_outputs = [\<lparr>ing_name = py ''Iron'', ing_quantity = 1\<rparr>]\<rparr>]\<rparr>"

definition ex_furnace :: raw_building where
  "ex_furnace =
     \<lparr>rb_id = py ''FurnaceT2'', rb_name = py ''Furnace'', rb_workers = 0,
      rb_electricity_consumed = 10, rb_maintenance_cost_units = py ''Coal'',
      rb_maintenance_cost_quantity = 1, rb_icon_path = py ''furnace.png'',
      rb_recipes =
        [\<lparr>rr_id = py ''SmeltIron'', rr_name = py ''fourth'', rr_duration = 30,
          rr_inputs = [],
          rr_outputs = [\<lparr>ing_name = py ''Coal'', ing_quantity = 1\<rparr>]\<rparr>,
         \<lparr>rr_id = py ''CastSteel'', rr_name = py ''fifth'', rr_duration = 30,
          rr_inputs = [\<lparr>ing_name = py ''Iron'', ing_quantity = 1\<rparr>],
          rr_outputs = []\<rparr>]\<rparr>"

definition ex_buildings :: buildings_doc where
  "ex_buildings =
     \<lparr>bd_game_version = py ''0.5'', bd_machines_and_buildings = [ex_smelter, ex_furnace]\<rparr>"

definition ex_mill :: raw_building where
  "ex_mill =
     \<lparr>rb_id = py ''Mill'', rb_name = py ''Mill'', rb_workers = 0,
      rb_electricity_consumed = 0, rb_maintenance_cost_units = [],
      rb_maintenance_cost_quantity = 0, rb_icon_path = py ''mill.png'',
      rb_recipes =
        [\<lparr>rr_id = py ''SmeltIron'', rr_name = py ''first'', rr_duration = 20,
          rr_inputs = [\<lparr>ing_name = py ''Slag'', ing_quantity = 1\<rparr>],
          rr_outputs = [\<lparr>ing_name = py ''Iron'', ing_quantity = 2\<rparr>]\<rparr>,
         \<lparr>rr_id = py ''CastSteel'', rr_name = py ''second'', rr_duration = 20,
          rr_inputs = [],
          rr_outputs = [\<lparr>ing_name = py ''Iron'', ing_quantity = 1\<rparr>]\<rparr>]\<rparr>"

definition ex_press :: raw_building where
  "ex_press =
     \<lparr>rb_id = py ''Press'', rb_name = py ''Press'', rb_workers = 1,
      rb_electricity_consumed = 0, rb_maintenance_cost_units = [],
      rb_maintenance_cost_quantity = 0, rb_icon_path = py ''press.png'',
      rb_recipes =
        [\<lparr>rr_id = py ''SmeltIron'', rr_name = py ''third'', rr_duration = 20,
          rr_inputs = [],
          rr_outputs = [\<lparr>ing_name = py ''Iron'', ing_quantity = 1\<rparr>]\<rparr>]\<rparr>"

definition ex_drop :: buildings_doc where
  "ex_drop = \<lparr>bd_game_version = py ''0.5'', bd_machines_and_buildings = [ex_mill, ex_press]\<rparr>"

definition ex_catalog :: state where
  "ex_catalog = read_products ex_products (add_defaults initial_state)"

definition ex_final :: state where
  "ex_final = projr (run_state ex_products ex_buildings)"

definition ex_drop_final :: state where
  "ex_drop_final = projr (run_state ex_products ex_drop)"

definition ex_output :: output_doc where
  "ex_output = projr (main ex_products ex_buildings)"

section \<open>Evaluation of the character classes and literals\<close>

lemma is_decimal_low: "c < 0x660 \<Longrightarrow> is_decimal c = is_ascii_digit c"
  by (simp add: is_decimal_def unicode_Nd_zeros_def is_ascii_digit_def) arith

lemma py_simps: "py [] = []" "py (c # s) = of_char c # py s"
  by (simp_all add: py_def)

lemmas char_simps =
  py_simps is_upper_def is_lower_def is_decimal_low is_ascii_digit_def lower_def
  lower_char_def is_alnum_def is_lower_or_digit_def startswith_def

section \<open>The identifier translator\<close>

lemma findall_token_chars:
  "t \<in> set (findall_CoDNaming s) \<Longrightarrow> c \<in> set t \<Longrightarrow>
     c \<in> set s \<and> (is_upper c \<or> is_lower c \<or> is_decimal c)"
proof (induction s rule: findall_CoDNaming.induct)
  case 1
  then show ?case by simp
next
  case (2 c0 cs)
  show ?case
  proof (cases "is_upper c0 \<and> cs \<noteq> [] \<and> is_lower (hd cs)")
    case True
    with 2 show ?thesis
      by (auto dest: set_takeWhileD set_dropWhileD)
  next
    case a: False
    show ?thesis
    proof (cases "is_upper c0 \<and> cs \<noteq> [] \<and> is_upper (hd cs)")
      case True
      with a 2 show ?thesis
        by (auto dest: set_takeWhileD set_dropWhileD)
    next
      case b: False
      show ?thesis
      proof (cases "is_decimal c0")
        case True
        with a b 2 show ?thesis
          by (cases cs) (auto split: if_splits)
      next
        case False
        with a b 2 show ?thesis by auto
      qed
    qed
  qed
qed

lemma set_join: "set (join sep ts) \<subseteq> set sep \<union> \<Union> (set ` set ts)"
  by (induction sep ts rule: join.induct) auto

lemma lower_join: "lower (join sep ts) = join (lower sep) (map lower ts)"
  by (induction sep ts rule: join.induct) (simp_all add: lower_def)

lemma lower_char_ok:
  "is_upper c \<or> is_lower c \<or> is_ascii_digit c \<or> c = 45 \<Longrightarrow> ok_char (lower_char c)"
  by (auto simp: ok_char_def lower_char_def is_upper_def is_lower_def is_ascii_digit_def)

text \<open>
  C8, amended. For every string whose decimal digits are all among \<open>0\<close> to \<open>9\<close> (every
  ASCII string is one), \<open>convertCod2FL\<close> returns the tokens that the pattern matches,
  each in lower case, joined with hyphens; the result has no character outside
  \<open>[a-z0-9-]\<close>, and with no token it is the empty string. The function is defined on
  every string (its recursion terminates) and is a function of its argument alone.
\<close>

theorem convertCod2FL_charset:
  assumes "ascii_decimals X"
  shows "list_all ok_char (convertCod2FL X)
       \<and> convertCod2FL X = join (py ''-'') (map lower (findall_CoDNaming X))
       \<and> (findall_CoDNaming X = [] \<longrightarrow> convertCod2FL X = [])"
proof -
  have tok: "convertCod2FL X = join (py ''-'') (map lower (findall_CoDNaming X))"
    by (simp add: convertCod2FL_def lower_join)
       (simp add: lower_def lower_char_def is_upper_def py_simps)
  have "ok_char d" if d: "d \<in> set (convertCod2FL X)" for d
  proof -
    from d obtain c where c: "c \<in> set (join (py ''-'') (findall_CoDNaming X))"
      and dc: "d = lower_char c"
      by (auto simp: convertCod2FL_def lower_def)
    from c set_join[of "py ''-''" "findall_CoDNaming X"]
    consider "c = 45" | t where "t \<in> set (findall_CoDNaming X)" "c \<in> set t"
      by (auto simp: py_simps)
    then have "is_upper c \<or> is_lower c \<or> is_ascii_digit c \<or> c = 45"
    proof cases
      case 1
      then show ?thesis by simp
    next
      case 2
      from findall_token_chars[OF 2]
      have "c \<in> set X" "is_upper c \<or> is_lower c \<or> is_decimal c" by auto
      with assms show ?thesis by (auto simp: ascii_decimals_def list_all_iff)
    qed
    with dc show ?thesis by (simp add: lower_char_ok)
  qed
  then have "list_all ok_char (convertCod2FL X)" by (simp add: list_all_iff)
  moreover have "findall_CoDNaming X = [] \<longrightarrow> convertCod2FL X = []"
    by (simp add: convertCod2FL_def lower_def)
  ultimately show ?thesis using tok by simp
qed

theorem convertCod2FL_charset_witness:
  "ascii_decimals (py ''MaintenanceT2'')
   \<and> list_all ok_char (convertCod2FL (py ''MaintenanceT2''))
   \<and> convertCod2FL (py ''MaintenanceT2'') = py ''maintenance-2''"
  using convertCod2FL_charset[of "py ''MaintenanceT2''"]
  by (simp add: ascii_decimals_def convertCod2FL_def char_simps)

text \<open>
  C8 as stated fails: \<open>\d\<close> also matches the decimal digits beyond ASCII, and they are
  kept as they are. U+0663 (ARABIC-INDIC DIGIT THREE) is translated to itself.
\<close>

theorem convertCod2FL_charset_counterexample:
  "\<not> list_all ok_char (convertCod2FL [0x663])"
  by (simp add: convertCod2FL_def py_simps is_upper_def is_lower_def is_decimal_def
      unicode_Nd_zeros_def lower_def lower_char_def ok_char_def is_ascii_digit_def)

section \<open>Runs on concrete documents\<close>

lemmas run_simps =
  convertCod2FL_def match_Product_def match_ProdType_def dict_in_def dict_get_def
  PRODUCT_TYPES_def DEFAULT_PRODUCTS_def initial_state_def add_default_def add_defaults_def
  process_product_def read_products_def convertIngredientList_def next_recipe_id_def
  process_recipe_def consumption_def process_building_def run_state_def main_def
  make_output_def print_def chr_def getItems_def Let_def

text \<open>
  C1, amended. For the products document with the one countable product \<open>Product_Iron\<close>
  named Iron and a buildings document of the same game version with the one building
  \<open>SmelterT1\<close> (no workers, no electricity, empty maintenance unit) whose one recipe
  \<open>SmeltIron\<close> has no input and the output Iron with quantity 1, the run succeeds and
  the recipe list of the output has exactly one entry, with id \<open>smelt-iron\<close>, out
  \<open>{iron: 1}\<close> and producers \<open>[smelter-1]\<close>: the capital T before the digit is no token
  of the naming pattern, as in the docstring's example \<open>MaintenanceT2\<close>.
\<close>

theorem minimal_run:
  "recipes_of (main
     \<lparr>pd_game_version = v,
      pd_products = [\<lparr>rp_type = py ''CountableProductProto'', rp_id = py ''Product_Iron'',
                      rp_name = py ''Iron'', rp_icon_path = p1\<rparr>]\<rparr>
     \<lparr>bd_game_version = v,
      bd_machines_and_buildings =
        [\<lparr>rb_id = py ''SmelterT1'', rb_name = bn, rb_workers = 0, rb_electricity_consumed = 0,
          rb_maintenance_cost_units = [], rb_maintenance_cost_quantity = mq, rb_icon_path = p2,
          rb_recipes = [\<lparr>rr_id = py ''SmeltIron'', rr_name = rn, rr_duration = d, rr_inputs = [],
                          rr_outputs = [\<lparr>ing_name = py ''Iron'', ing_quantity = 1\<rparr>]\<rparr>]\<rparr>]\<rparr>)
   = Some [\<lparr>rec_id = py ''smelt-iron'', rec_name = rn, rec_time = d,
            rec_producers = [py ''smelter-1''], rec_row = 0, rec_icon = py ''smelter-1'',
            rec_in = [], rec_out = [(py ''iron'', 1)]\<rparr>]"
  by (simp add: recipes_of_def run_simps char_simps)

text \<open>
  C1 as stated fails: on such documents the producers are not \<open>[smelter-t1]\<close>.
\<close>

theorem minimal_run_counterexample:
  "map_option (map rec_producers) (recipes_of (main
     \<lparr>pd_game_version = py ''1'',
      pd_products = [\<lparr>rp_type = py ''CountableProductProto'', rp_id = py ''Product_Iron'',
                      rp_name = py ''Iron'', rp_icon_path = py ''iron.png''\<rparr>]\<rparr>
     \<lparr>bd_game_version = py ''1'',
      bd_machines_and_buildings =
        [\<lparr>rb_id = py ''SmelterT1'', rb_name = py ''Smelter'', rb_workers = 0, rb_electricity_consumed = 0,
          rb_maintenance_cost_units = [], rb_maintenance_cost_quantity = 0, rb_icon_path = py ''smelter.png'',
          rb_recipes = [\<lparr>rr_id = py ''SmeltIron'', rr_name = py ''Smelt iron'', rr_duration = 20, rr_inputs = [],
                          rr_outputs = [\<lparr>ing_name = py ''Iron'', ing_quantity = 1\<rparr>]\<rparr>]\<rparr>]\<rparr>))
   \<noteq> Some [[py ''smelter-t1'']]"
  by (simp add: recipes_of_def run_simps char_simps)

text \<open>
  C2 fails on the code: nothing is ever added to the set \<open>ids\<close>, so neither membership
  test of lines 123 and 153 can succeed. Two products \<open>Product_Iron\<close> and a building
  \<open>Iron\<close> all reach the items of the output under the id \<open>iron\<close>, and nothing is printed.
\<close>

theorem duplicate_ids_emitted:
  "map_option (map id_of_item) (items_of (main
     \<lparr>pd_game_version = py ''1'',
      pd_products = [\<lparr>rp_type = py ''CountableProductProto'', rp_id = py ''Product_Iron'',
                      rp_name = py ''Iron'', rp_icon_path = py ''a.png''\<rparr>,
                     \<lparr>rp_type = py ''CountableProductProto'', rp_id = py ''Product_Iron'',
                      rp_name = py ''Iron Plate'', rp_icon_path = py ''b.png''\<rparr>]\<rparr>
     \<lparr>bd_game_version = py ''1'',
      bd_machines_and_buildings =
        [\<lparr>rb_id = py ''Iron'', rb_name = py ''Iron works'', rb_workers = 0, rb_electricity_consumed = 0,
          rb_maintenance_cost_units = [], rb_maintenance_cost_quantity = 0, rb_icon_path = py ''c.png'',
          rb_recipes = []\<rparr>]\<rparr>))
   = Some [py ''worker'', py ''iron'', py ''iron'', py ''iron'']
   \<and> map_sum id printed (run_state
     \<lparr>pd_game_version = py ''1'',
      pd_products = [\<lparr>rp_type = py ''CountableProductProto'', rp_id = py ''Product_Iron'',
                      rp_name = py ''Iron'', rp_icon_path = py ''a.png''\<rparr>,
                     \<lparr>rp_type = py ''CountableProductProto'', rp_id = py ''Product_Iron'',
                      rp_name = py ''Iron Plate'', rp_icon_path = py ''b.png''\<rparr>]\<rparr>
     \<lparr>bd_game_version = py ''1'',
      bd_machines_and_buildings =
        [\<lparr>rb_id = py ''Iron'', rb_name = py ''Iron works'', rb_workers = 0, rb_electricity_consumed = 0,
          rb_maintenance_cost_units = [], rb_maintenance_cost_quantity = 0, rb_icon_path = py ''c.png'',
          rb_recipes = []\<rparr>]\<rparr>) = Inr []"
  by (simp add: items_of_def run_simps char_simps)

section \<open>The version check\<close>

text \<open>
  C5. When the game version of the buildings document differs from the one of the
  products document, the run ends with \<open>sys.exit(1)\<close>: the status is not zero and no
  output document is produced.
\<close>

theorem version_mismatch_aborts:
  assumes "bd_game_version bd \<noteq> pd_game_version pd"
  shows "main pd bd = Inl (SystemExit 1) \<and> exit_status (main pd bd) \<noteq> 0
         \<and> recipes_of (main pd bd) = None \<and> items_of (main pd bd) = None"
  using assms by (simp add: main_def run_state_def exit_status_def recipes_of_def items_of_def)

theorem version_mismatch_aborts_witness:
  "bd_game_version \<lparr>bd_game_version = py ''0.5'', bd_machines_and_buildings = []\<rparr>
     \<noteq> pd_game_version \<lparr>pd_game_version = py ''0.4'', pd_products = []\<rparr>
   \<and> main \<lparr>pd_game_version = py ''0.4'', pd_products = []\<rparr>
          \<lparr>bd_game_version = py ''0.5'', bd_machines_and_buildings = []\<rparr> = Inl (SystemExit 1)"
  using version_mismatch_aborts[of "\<lparr>bd_game_version = py ''0.5'', bd_machines_and_buildings = []\<rparr>"
      "\<lparr>pd_game_version = py ''0.4'', pd_products = []\<rparr>"]
  by (simp add: py_simps)

section \<open>The ingredient resolver\<close>

lemma loop_unresolved:
  "find (\<lambda>i. \<not> dict_in (ing_name i) idx) ings = Some bad \<Longrightarrow>
   convertIngredientList_loop idx ings ret
     = Inl (ValueError (py ''Unknown ingredient: '' @ ing_name bad))"
  by (induction ings arbitrary: ret) (auto simp: dict_in_def split: if_splits)

lemma loop_resolved:
  "list_all (\<lambda>i. dict_in (ing_name i) idx) ings \<Longrightarrow>
   \<exists>m. convertIngredientList_loop idx ings ret = Inr m
      \<and> (distinct (map fst ret) \<longrightarrow> distinct (map fst m))
      \<and> map_of m = map_of ret ++ map_of (rev (resolved_pairs idx ings))"
proof (induction ings arbitrary: ret)
  case Nil
  then show ?case by (simp add: resolved_pairs_def)
next
  case (Cons i ings)
  from Cons.prems obtain k where k: "map_of idx (ing_name i) = Some k"
    by (auto simp: dict_in_def)
  from Cons.prems have rest: "list_all (\<lambda>i. dict_in (ing_name i) idx) ings" by simp
  from Cons.IH[OF rest, of "AList.update k (ing_quantity i) ret"]
  obtain m where m: "convertIngredientList_loop idx ings (AList.update k (ing_quantity i) ret) = Inr m"
    "distinct (map fst (AList.update k (ing_quantity i) ret)) \<longrightarrow> distinct (map fst m)"
    "map_of m = map_of (AList.update k (ing_quantity i) ret) ++ map_of (rev (resolved_pairs idx ings))"
    by blast
  have "map_of (AList.update k (ing_quantity i) ret) ++ map_of (rev (resolved_pairs idx ings))
      = map_of ret ++ map_of (rev (resolved_pairs idx (i # ings)))"
    by (simp add: resolved_pairs_def k update_conv' map_add_upd_left fun_eq_iff map_add_def split: option.splits)
  with m k show ?case by (simp add: distinct_update)
qed

text \<open>
  C3. If some entry of the list has a name that is not in the index,
  \<open>convertIngredientList\<close> raises \<open>ValueError\<close> with the message \<open>Unknown ingredient:\<close>
  followed by the first such name, and returns no mapping. If every name is in the
  index it returns a dictionary with distinct keys that maps each resolved product id
  to the quantity of the last entry that resolves to it.
\<close>

theorem convertIngredientList_all_or_nothing:
  "(list_ex (\<lambda>i. \<not> dict_in (ing_name i) idx) ings \<longrightarrow>
      (\<exists>bad. find (\<lambda>i. \<not> dict_in (ing_name i) idx) ings = Some bad
           \<and> convertIngredientList idx ings
               = Inl (ValueError (py ''Unknown ingredient: '' @ ing_name bad))))
   \<and> (list_all (\<lambda>i. dict_in (ing_name i) idx) ings \<longrightarrow>
      (\<exists>m. convertIngredientList idx ings = Inr m \<and> distinct (map fst m)
         \<and> map_of m = map_of (rev (resolved_pairs idx ings))))"
proof (intro conjI impI)
  assume "list_ex (\<lambda>i. \<not> dict_in (ing_name i) idx) ings"
  then obtain bad where "find (\<lambda>i. \<not> dict_in (ing_name i) idx) ings = Some bad"
    by (cases "find (\<lambda>i. \<not> dict_in (ing_name i) idx) ings") (auto simp: find_None_iff list_ex_iff)
  then show "\<exists>bad. find (\<lambda>i. \<not> dict_in (ing_name i) idx) ings = Some bad
           \<and> convertIngredientList idx ings
               = Inl (ValueError (py ''Unknown ingredient: '' @ ing_name bad))"
    by (simp add: convertIngredientList_def loop_unresolved)
next
  assume "list_all (\<lambda>i. dict_in (ing_name i) idx) ings"
  from loop_resolved[OF this, of "[]"]
  show "\<exists>m. convertIngredientList idx ings = Inr m \<and> distinct (map fst m)
         \<and> map_of m = map_of (rev (resolved_pairs idx ings))"
    by (simp add: convertIngredientList_def)
qed

theorem convertIngredientList_all_or_nothing_witness:
  "list_ex (\<lambda>i. \<not> dict_in (ing_name i) [(py ''Iron'', py ''iron''), (py ''Coal'', py ''coal'')])
     [\<lparr>ing_name = py ''Iron'', ing_quantity = 1\<rparr>, \<lparr>ing_name = py ''Slag'', ing_quantity = 2\<rparr>,
      \<lparr>ing_name = py ''Coal'', ing_quantity = 3\<rparr>]
   \<and> convertIngredientList [(py ''Iron'', py ''iron''), (py ''Coal'', py ''coal'')]
     [\<lparr>ing_name = py ''Iron'', ing_quantity = 1\<rparr>, \<lparr>ing_name = py ''Slag'', ing_quantity = 2\<rparr>,
      \<lparr>ing_name = py ''Coal'', ing_quantity = 3\<rparr>]
     = Inl (ValueError (py ''Unknown ingredient: Slag''))
   \<and> list_all (\<lambda>i. dict_in (ing_name i) [(py ''Iron'', py ''iron''), (py ''Coal'', py ''coal'')])
     [\<lparr>ing_name = py ''Iron'', ing_quantity = 1\<rparr>, \<lparr>ing_name = py ''Coal'', ing_quantity = 3\<rparr>]
   \<and> convertIngredientList [(py ''Iron'', py ''iron''), (py ''Coal'', py ''coal'')]
     [\<lparr>ing_name = py ''Iron'', ing_quantity = 1\<rparr>, \<lparr>ing_name = py ''Coal'', ing_quantity = 3\<rparr>]
     = Inr [(py ''iron'', 1), (py ''coal'', 3)]"
  using convertIngredientList_all_or_nothing[of "[(py ''Iron'', py ''iron''), (py ''Coal'', py ''coal'')]"
     "[\<lparr>ing_name = py ''Iron'', ing_quantity = 1\<rparr>, \<lparr>ing_name = py ''Slag'', ing_quantity = 2\<rparr>,
      \<lparr>ing_name = py ''Coal'', ing_quantity = 3\<rparr>]"]
    convertIngredientList_all_or_nothing[of "[(py ''Iron'', py ''iron''), (py ''Coal'', py ''coal'')]"
     "[\<lparr>ing_name = py ''Iron'', ing_quantity = 1\<rparr>, \<lparr>ing_name = py ''Coal'', ing_quantity = 3\<rparr>]"]
  by (simp add: convertIngredientList_def dict_in_def py_simps)

section \<open>The recipe loop and the building loop\<close>

lemma dict_get_update:
  "dict_get (AList.update k v d) k' dflt = (if k' = k then v else dict_get d k' dflt)"
  by (simp add: dict_get_def update_conv')

lemma loop_fold:
  "list_all (\<lambda>i. dict_in (ing_name i) idx) ings \<Longrightarrow>
   convertIngredientList_loop idx ings ret
     = Inr (fold (\<lambda>i. AList.update (the (map_of idx (ing_name i))) (ing_quantity i)) ings ret)"
  by (induction ings arbitrary: ret) (auto simp: dict_in_def)

lemma convert_resolves:
  "resolves idx ings \<Longrightarrow> convertIngredientList idx ings = Inr (resolved idx ings)"
  by (simp add: resolves_def resolved_def convertIngredientList_def loop_fold)

lemma loop_fails:
  "\<not> list_all (\<lambda>i. dict_in (ing_name i) idx) ings \<Longrightarrow>
   \<exists>e. convertIngredientList_loop idx ings ret = Inl (ValueError e)"
  by (induction ings arbitrary: ret) (auto simp: dict_in_def split: option.splits)

lemma convert_not_resolves:
  "\<not> resolves idx ings \<Longrightarrow> \<exists>e. convertIngredientList idx ings = Inl (ValueError e)"
  by (simp add: resolves_def convertIngredientList_def loop_fails)

lemma next_recipe_id_eq:
  "next_recipe_id rid st =
     (let r = convertCod2FL rid; n = counter st r in
      if n = 0 \<or> n + 96 < 0x110000
      then Inr (disambiguated r (Suc n), st\<lparr>recipeIds := AList.update r (Suc n) (recipeIds st)\<rparr>)
      else Inl (ValueError (py ''chr() arg not in range(0x110000)'')))"
  by (auto simp: next_recipe_id_def counter_def Let_def chr_def disambiguated_def)

lemma process_recipe_ok:
  assumes "next_recipe_id (rr_id rcp) st = Inr (rID, st1)"
  shows "\<exists>st2. process_recipe flabID rcp st = Inr st2
      \<and> recipeList st2 = recipeList st1 @
            (if retained (prodIndex st1) rcp then [emitted flabID rID (prodIndex st1) rcp] else [])
      \<and> recipeIds st2 = recipeIds st1 \<and> same_catalog st1 st2"
proof (cases "resolves (prodIndex st1) (rr_inputs rcp)")
  case False
  from convert_not_resolves[OF this] obtain e where
    "convertIngredientList (prodIndex st1) (rr_inputs rcp) = Inl (ValueError e)" ..
  with assms False show ?thesis
    by (simp add: process_recipe_def retained_def same_catalog_def print_def)
next
  case i: True
  show ?thesis
  proof (cases "resolves (prodIndex st1) (rr_outputs rcp)")
    case False
    from convert_not_resolves[OF this] obtain e where
      "convertIngredientList (prodIndex st1) (rr_outputs rcp) = Inl (ValueError e)" ..
    with assms False i show ?thesis
      by (simp add: process_recipe_def retained_def same_catalog_def print_def convert_resolves)
  next
    case True
    with assms i show ?thesis
      by (simp add: process_recipe_def retained_def same_catalog_def convert_resolves emitted_def)
  qed
qed

lemma process_recipe_step:
  assumes "counter st (convertCod2FL (rr_id rcp)) < 1114016"
  shows "\<exists>st2. process_recipe flabID rcp st = Inr st2
      \<and> recipeList st2 = recipeList st @
            (if retained (prodIndex st) rcp
             then [emitted flabID (disambiguated (convertCod2FL (rr_id rcp))
                     (Suc (counter st (convertCod2FL (rr_id rcp))))) (prodIndex st) rcp]
             else [])
      \<and> counter st2 = (counter st)(convertCod2FL (rr_id rcp) := Suc (counter st (convertCod2FL (rr_id rcp))))
      \<and> same_catalog st st2"
proof -
  let ?r = "convertCod2FL (rr_id rcp)"
  let ?st1 = "st\<lparr>recipeIds := AList.update ?r (Suc (counter st ?r)) (recipeIds st)\<rparr>"
  from assms have n: "next_recipe_id (rr_id rcp) st = Inr (disambiguated ?r (Suc (counter st ?r)), ?st1)"
    by (simp add: next_recipe_id_eq Let_def)
  from process_recipe_ok[OF n, of flabID] obtain st2 where
    st2: "process_recipe flabID rcp st = Inr st2"
      "recipeList st2 = recipeList ?st1 @
            (if retained (prodIndex ?st1) rcp
             then [emitted flabID (disambiguated ?r (Suc (counter st ?r))) (prodIndex ?st1) rcp] else [])"
      "recipeIds st2 = recipeIds ?st1" "same_catalog ?st1 st2"
    by blast
  have "counter st2 = (counter st)(?r := Suc (counter st ?r))"
    by (rule ext) (simp add: counter_def st2(3) dict_get_update)
  with st2 show ?thesis by (simp add: same_catalog_def)
qed

lemma process_recipe_fails:
  assumes "\<not> counter st (convertCod2FL (rr_id rcp)) < 1114016"
  shows "\<exists>e. process_recipe flabID rcp st = Inl e"
  using assms by (simp add: process_recipe_def next_recipe_id_eq Let_def)

lemma process_recipes_char:
  "process_recipes flabID rcps st = Inr st' \<Longrightarrow>
   recipeList st' = recipeList st @ spec_recipes (prodIndex st) (counter st) (map (Pair flabID) rcps)
   \<and> counter st' = (\<lambda>r. counter st r + count_list (map (\<lambda>rcp. convertCod2FL (rr_id rcp)) rcps) r)
   \<and> same_catalog st st'"
proof (induction rcps arbitrary: st)
  case Nil
  then show ?case by (simp add: same_catalog_def)
next
  case (Cons rcp rcps)
  let ?r = "convertCod2FL (rr_id rcp)"
  have bound: "counter st ?r < 1114016"
  proof (rule ccontr)
    assume "\<not> counter st ?r < 1114016"
    from process_recipe_fails[OF this, of flabID] Cons.prems show False by auto
  qed
  from process_recipe_step[OF bound, of flabID] obtain st1 where
    st1: "process_recipe flabID rcp st = Inr st1"
      "recipeList st1 = recipeList st @
            (if retained (prodIndex st) rcp
             then [emitted flabID (disambiguated ?r (Suc (counter st ?r))) (prodIndex st) rcp]
             else [])"
      "counter st1 = (counter st)(?r := Suc (counter st ?r))"
      "same_catalog st st1"
    by blast
  from Cons.prems st1(1) have "process_recipes flabID rcps st1 = Inr st'" by simp
  from Cons.IH[OF this] have
    ih: "recipeList st' = recipeList st1 @ spec_recipes (prodIndex st1) (counter st1) (map (Pair flabID) rcps)"
      "counter st' = (\<lambda>r. counter st1 r + count_list (map (\<lambda>rcp. convertCod2FL (rr_id rcp)) rcps) r)"
      "same_catalog st1 st'"
    by auto
  have idx: "prodIndex st1 = prodIndex st" using st1(4) by (simp add: same_catalog_def)
  have "recipeList st' = recipeList st @ spec_recipes (prodIndex st) (counter st) (map (Pair flabID) (rcp # rcps))"
    by (simp add: ih(1) st1(2) st1(3) idx norm_id_def)
  moreover have "counter st' = (\<lambda>r. counter st r + count_list (map (\<lambda>rcp. convertCod2FL (rr_id rcp)) (rcp # rcps)) r)"
    by (auto simp: ih(2) st1(3) fun_eq_iff)
  moreover have "same_catalog st st'"
    using st1(4) ih(3) by (simp add: same_catalog_def)
  ultimately show ?case by blast
qed


lemma spec_recipes_append:
  "spec_recipes idx cnt (xs @ ys)
     = spec_recipes idx cnt xs
       @ spec_recipes idx (\<lambda>r. cnt r + count_list (map norm_id xs) r) ys"
proof (induction xs arbitrary: cnt)
  case Nil
  then show ?case by simp
next
  case (Cons x xs)
  have "(\<lambda>r. (cnt(norm_id x := Suc (cnt (norm_id x)))) r + count_list (map norm_id xs) r)
      = (\<lambda>r. cnt r + count_list (map norm_id (x # xs)) r)"
    by (auto simp: fun_eq_iff)
  then show ?case by (simp add: Cons.IH del: fun_upd_apply)
qed

lemma spec_recipes_by_index:
  "spec_recipes idx cnt enc =
     map (\<lambda>k. emitted (fst (enc ! k))
                 (disambiguated (norm_id (enc ! k))
                    (cnt (norm_id (enc ! k))
                     + count_list (take (Suc k) (map norm_id enc)) (norm_id (enc ! k))))
                 idx (snd (enc ! k)))
         (filter (\<lambda>k. retained idx (snd (enc ! k))) [0..<length enc])"
proof (induction enc rule: rev_induct)
  case Nil
  then show ?case by simp
next
  case (snoc x enc)
  define f where "f = (\<lambda>e k. emitted (fst (e ! k))
                 (disambiguated (norm_id (e ! k))
                    (cnt (norm_id (e ! k))
                     + count_list (take (Suc k) (map norm_id e)) (norm_id (e ! k))))
                 idx (snd (e ! k)))"
  define P where "P = (\<lambda>(e::(pystr \<times> raw_recipe) list) k. retained idx (snd (e ! k)))"
  have ih: "spec_recipes idx cnt enc = map (f enc) (filter (P enc) [0..<length enc])"
    unfolding f_def P_def by (rule snoc.IH)
  have filt: "filter (P (enc @ [x])) [0..<length enc] = filter (P enc) [0..<length enc]"
    by (rule filter_cong) (auto simp: nth_append P_def)
  have mp: "map (f (enc @ [x])) (filter (P enc) [0..<length enc])
          = map (f enc) (filter (P enc) [0..<length enc])"
    by (rule map_cong) (auto simp: nth_append f_def)
  have last: "spec_recipes idx (\<lambda>r. cnt r + count_list (map norm_id enc) r) [x]
          = map (f (enc @ [x])) (filter (P (enc @ [x])) [length enc])"
    by (simp add: f_def P_def)
  have "spec_recipes idx cnt (enc @ [x])
      = map (f (enc @ [x])) (filter (P (enc @ [x])) [0..<length (enc @ [x])])"
    by (simp only: spec_recipes_append ih last length_append_singleton upt_Suc_append[OF le0]
        filter_append map_append filt mp)
  then show ?case unfolding f_def P_def .
qed

lemma process_building_accepted:
  "accepted (ids st) (prodIndex st) item \<Longrightarrow>
   process_building item st
     = process_recipes (convertCod2FL (rb_id item)) (rb_recipes item)
         (st\<lparr>mnbList := mnbList st @ [building_of (prodIndex st) item],
             iconList := iconList st @ [icon_of item]\<rparr>)"
  by (auto simp: accepted_def process_building_def Let_def building_of_def icon_of_def)

lemma process_building_skipped:
  "\<not> accepted (ids st) (prodIndex st) item \<Longrightarrow> \<exists>m. process_building item st = Inr (print m st)"
  by (auto simp: accepted_def process_building_def Let_def)

lemma encountered_Cons:
  "encountered used idx (b # bs)
     = (if accepted used idx b then map (Pair (convertCod2FL (rb_id b))) (rb_recipes b) else [])
       @ encountered used idx bs"
  by (simp add: encountered_def)

lemma norm_id_Pair: "norm_id \<circ> Pair f = (\<lambda>rcp. convertCod2FL (rr_id rcp))"
  by (simp add: norm_id_def comp_def)

lemma counter_printed: "counter (st\<lparr>printed := p\<rparr>) = counter st"
  by (rule ext) (simp add: counter_def)

lemma process_buildings_char:
  "process_buildings bs st = Inr st' \<Longrightarrow>
   recipeList st' = recipeList st
       @ spec_recipes (prodIndex st) (counter st) (encountered (ids st) (prodIndex st) bs)
   \<and> counter st' = (\<lambda>r. counter st r
                       + count_list (map norm_id (encountered (ids st) (prodIndex st) bs)) r)
   \<and> ids st' = ids st \<and> prodIndex st' = prodIndex st \<and> prodList st' = prodList st
   \<and> mnbList st' = mnbList st
       @ map (building_of (prodIndex st)) (filter (accepted (ids st) (prodIndex st)) bs)
   \<and> iconList st' = iconList st @ map icon_of (filter (accepted (ids st) (prodIndex st)) bs)"
proof (induction bs arbitrary: st)
  case Nil
  then show ?case by (simp add: encountered_def)
next
  case (Cons b bs)
  from Cons.prems obtain st1 where
    st1: "process_building b st = Inr st1" and rest: "process_buildings bs st1 = Inr st'"
    by (auto split: sum.splits)
  note ih = Cons.IH[OF rest]
  show ?case
  proof (cases "accepted (ids st) (prodIndex st) b")
    case False
    from process_building_skipped[OF False] st1 obtain m where m: "st1 = print m st" by auto
    with ih False show ?thesis by (simp add: print_def encountered_Cons counter_printed)
  next
    case True
    let ?st0 = "st\<lparr>mnbList := mnbList st @ [building_of (prodIndex st) b],
                   iconList := iconList st @ [icon_of b]\<rparr>"
    from process_building_accepted[OF True] st1
    have "process_recipes (convertCod2FL (rb_id b)) (rb_recipes b) ?st0 = Inr st1" by simp
    moreover have "counter ?st0 = counter st"
      by (rule ext) (simp add: counter_def)
    ultimately have r: "recipeList st1 = recipeList st
                @ spec_recipes (prodIndex st) (counter st)
                    (map (Pair (convertCod2FL (rb_id b))) (rb_recipes b))"
      "counter st1 = (\<lambda>r. counter st r
                       + count_list (map (\<lambda>rcp. convertCod2FL (rr_id rcp)) (rb_recipes b)) r)"
      "ids st1 = ids st" "prodIndex st1 = prodIndex st" "prodList st1 = prodList st"
      "mnbList st1 = mnbList st @ [building_of (prodIndex st) b]"
      "iconList st1 = iconList st @ [icon_of b]"
      using process_recipes_char[of "convertCod2FL (rb_id b)" "rb_recipes b" ?st0 st1]
      by (simp_all add: same_catalog_def)
    from ih True show ?thesis
      by (simp add: r encountered_Cons spec_recipes_append norm_id_Pair add.assoc)
  qed
qed

section \<open>The product catalog\<close>

lemma with_icon_snoc:
  "with_icon seen (ps @ [p])
     = with_icon seen ps
       @ (if prod_name p \<in> set seen \<union> set (map prod_name ps) then [] else [p])"
  by (induction ps arbitrary: seen) auto

lemma dict_in_iff: "dict_in k d \<longleftrightarrow> k \<in> fst ` set d"
  by (simp add: dict_in_def map_of_eq_None_iff)

lemma products_inv_init: "products_inv (add_defaults initial_state)"
  by (simp add: products_inv_def add_defaults_def add_default_def initial_state_def
      DEFAULT_PRODUCTS_def file_products_def)

lemma products_inv_append:
  assumes "products_inv st"
  shows "products_inv (print m st)"
    and "dict_in (prod_name r) (prodIndex st) \<Longrightarrow>
         products_inv (print m (st\<lparr>prodList := prodList st @ [r]\<rparr>))"
    and "\<not> dict_in (prod_name r) (prodIndex st) \<Longrightarrow>
         products_inv (st\<lparr>prodList := prodList st @ [r],
                          prodIndex := AList.update (prod_name r) (prod_id r) (prodIndex st),
                          iconList := iconList st @ [\<lparr>icon_id = prod_id r, icon_src = p\<rparr>]\<rparr>)"
proof -
  have len: "length DEFAULT_PRODUCTS \<le> length (prodList st)"
    using assms by (simp add: products_inv_def)
  have dflt: "map prod_name (take (length DEFAULT_PRODUCTS) (prodList st)) = map snd DEFAULT_PRODUCTS"
    using assms by (simp add: products_inv_def comp_def)
  have "prodList st = take (length DEFAULT_PRODUCTS) (prodList st) @ file_products st"
    by (simp add: file_products_def)
  then have "set (map prod_name (prodList st))
       = set (map prod_name (take (length DEFAULT_PRODUCTS) (prodList st)))
         \<union> set (map prod_name (file_products st))"
    by (metis map_append set_append)
  with dflt have all: "set (map prod_name (prodList st))
       = set (map snd DEFAULT_PRODUCTS) \<union> set (map prod_name (file_products st))"
    by simp
  have idx: "fst ` set (prodIndex st) = set (map prod_name (prodList st))"
    using assms by (simp add: products_inv_def)
  have cond: "(prod_name r \<in> set (map snd DEFAULT_PRODUCTS) \<union> set (map prod_name (file_products st)))
       = dict_in (prod_name r) (prodIndex st)"
    by (simp only: all[symmetric] idx[symmetric] dict_in_iff)
  have wi: "with_icon (map snd DEFAULT_PRODUCTS) (file_products st @ [r])
       = with_icon (map snd DEFAULT_PRODUCTS) (file_products st)
         @ (if dict_in (prod_name r) (prodIndex st) then [] else [r])"
    by (simp only: with_icon_snoc cond)
  have fp: "drop (length DEFAULT_PRODUCTS) (prodList st @ [r]) = file_products st @ [r]"
    using len by (simp add: file_products_def)
  show "products_inv (print m st)"
    using assms by (simp add: products_inv_def print_def file_products_def)
  show "products_inv (print m (st\<lparr>prodList := prodList st @ [r]\<rparr>))"
    if "dict_in (prod_name r) (prodIndex st)"
  proof -
    from that idx have "prod_name r \<in> set (map prod_name (prodList st))"
      by (simp only: dict_in_iff)
    then have "fst ` set (prodIndex st) = set (map prod_name (prodList st @ [r]))"
      using idx by auto
    moreover have "map icon_id (iconList st)
        = map prod_id (with_icon (map snd DEFAULT_PRODUCTS) (drop (length DEFAULT_PRODUCTS) (prodList st @ [r])))"
      using assms that by (simp only: fp wi) (simp add: products_inv_def)
    ultimately show ?thesis
      using assms len by (simp add: products_inv_def print_def file_products_def)
  qed
  show "products_inv (st\<lparr>prodList := prodList st @ [r],
                          prodIndex := AList.update (prod_name r) (prod_id r) (prodIndex st),
                          iconList := iconList st @ [\<lparr>icon_id = prod_id r, icon_src = p\<rparr>]\<rparr>)"
    if "\<not> dict_in (prod_name r) (prodIndex st)"
  proof -
    have "fst ` set (AList.update (prod_name r) (prod_id r) (prodIndex st))
        = set (map prod_name (prodList st @ [r]))"
      using idx by (auto simp: dom_update)
    moreover have "map icon_id (iconList st @ [\<lparr>icon_id = prod_id r, icon_src = p\<rparr>])
        = map prod_id (with_icon (map snd DEFAULT_PRODUCTS) (drop (length DEFAULT_PRODUCTS) (prodList st @ [r])))"
      using assms that by (simp only: fp wi) (simp add: products_inv_def)
    ultimately show ?thesis
      using assms len by (simp add: products_inv_def file_products_def)
  qed
qed

lemma products_inv_step:
  assumes "products_inv st"
  shows "products_inv (process_product item st)"
proof (cases "match_ProdType (rp_type item)")
  case None
  then show ?thesis by (simp add: process_product_def products_inv_append(1)[OF assms])
next
  case g1: (Some g1)
  show ?thesis
  proof (cases "match_Product (rp_id item)")
    case None
    with g1 show ?thesis by (simp add: process_product_def products_inv_append(1)[OF assms])
  next
    case g2: (Some g2)
    let ?r = "\<lparr>prod_id = convertCod2FL g2, prod_name = rp_name item, prod_type = lower g1\<rparr>"
    from products_inv_append(2)[OF assms, of ?r] products_inv_append(3)[OF assms, of ?r]
      products_inv_append(1)[OF assms]
    show ?thesis
      using g1 g2 by (simp add: process_product_def Let_def print_def)
  qed
qed

lemma products_inv_fold: "products_inv st \<Longrightarrow> products_inv (fold process_product items st)"
  by (induction items arbitrary: st) (simp_all add: products_inv_step)

lemma products_inv_read: "products_inv (read_products pd (add_defaults initial_state))"
  by (simp add: read_products_def products_inv_fold products_inv_init)

lemma prodList_step: "\<exists>xs. prodList (process_product item st) = prodList st @ xs"
  by (auto simp: process_product_def print_def Let_def split: option.splits)

lemma prodList_fold: "\<exists>xs. prodList (fold process_product items st) = prodList st @ xs"
proof (induction items arbitrary: st)
  case Nil
  then show ?case by simp
next
  case (Cons item items)
  from prodList_step[of item st] obtain xs where
    xs: "prodList (process_product item st) = prodList st @ xs" ..
  from Cons.IH[of "process_product item st"] obtain ys where
    "prodList (fold process_product items (process_product item st))
       = prodList (process_product item st) @ ys" ..
  with xs show ?case by simp
qed

section \<open>The accumulators at the end of a run\<close>

lemma run_state_Inr:
  assumes "run_state pd bd = Inr st"
  shows "bd_game_version bd = pd_game_version pd"
    and "process_buildings (bd_machines_and_buildings bd)
           (read_products pd (add_defaults initial_state)) = Inr st"
  using assms by (auto simp: run_state_def Let_def split: if_splits)

lemma run_state_fields:
  assumes "run_state pd bd = Inr st"
  defines "st0 \<equiv> read_products pd (add_defaults initial_state)"
  shows "ids st = ids st0" "prodIndex st = prodIndex st0" "prodList st = prodList st0"
    and "mnbList st = map (building_of (prodIndex st))
                        (filter (accepted (ids st) (prodIndex st)) (bd_machines_and_buildings bd))"
    and "iconList st = iconList st0
           @ map icon_of (filter (accepted (ids st) (prodIndex st)) (bd_machines_and_buildings bd))"
    and "recipeList st = spec_recipes (prodIndex st) (\<lambda>r. 0)
           (encountered (ids st) (prodIndex st) (bd_machines_and_buildings bd))"
    and "counter st = count_list (map norm_id
           (encountered (ids st) (prodIndex st) (bd_machines_and_buildings bd)))"
proof -
  have inv: "products_inv st0" unfolding st0_def by (rule products_inv_read)
  have c0: "counter st0 = (\<lambda>r. 0)"
    using inv by (simp add: products_inv_def counter_def dict_get_def fun_eq_iff)
  from run_state_Inr(2)[OF assms(1)]
  have pb: "process_buildings (bd_machines_and_buildings bd) st0 = Inr st"
    by (simp add: st0_def)
  note ch = process_buildings_char[OF pb]
  from ch show a: "ids st = ids st0" and b: "prodIndex st = prodIndex st0"
    and "prodList st = prodList st0" by simp_all
  from ch inv show "mnbList st = map (building_of (prodIndex st))
                        (filter (accepted (ids st) (prodIndex st)) (bd_machines_and_buildings bd))"
    by (simp add: products_inv_def)
  from ch show "iconList st = iconList st0
           @ map icon_of (filter (accepted (ids st) (prodIndex st)) (bd_machines_and_buildings bd))"
    by simp
  from ch inv show "recipeList st = spec_recipes (prodIndex st) (\<lambda>r. 0)
           (encountered (ids st) (prodIndex st) (bd_machines_and_buildings bd))"
    by (simp add: products_inv_def c0)
  from ch show "counter st = count_list (map norm_id
           (encountered (ids st) (prodIndex st) (bd_machines_and_buildings bd)))"
    by (simp add: c0 a b fun_eq_iff)
qed

lemmas spec_simps =
  accepted_def encountered_def retained_def resolves_def resolved_def emitted_def
  disambiguated_def norm_id_def counter_def building_of_def icon_of_def file_products_def
  product_ids_def icon_ids_def

section \<open>The example documents\<close>

lemmas ex_simps =
  ex_iron_def ex_steel_def ex_coal_def ex_products_def ex_smelter_def ex_furnace_def
  ex_buildings_def ex_mill_def ex_press_def ex_drop_def ex_catalog_def


lemma ex_buildings_list: "bd_machines_and_buildings ex_buildings = [ex_smelter, ex_furnace]"
  by (simp add: ex_buildings_def)

lemma ex_run: "run_state ex_products ex_buildings = Inr ex_final"
  by (simp add: ex_final_def ex_simps run_simps char_simps)

lemma ex_final_fields:
  "ids ex_final = {}"
  "prodIndex ex_final
     = [(py ''Workers'', py ''worker''), (py ''Iron'', py ''iron''), (py ''Coal'', py ''coal'')]"
  "prodList ex_final
     = [\<lparr>prod_id = py ''worker'', prod_name = py ''Workers'', prod_type = py ''virtual''\<rparr>,
        \<lparr>prod_id = py ''iron'', prod_name = py ''Iron'', prod_type = py ''countable''\<rparr>,
        \<lparr>prod_id = py ''steel'', prod_name = py ''Iron'', prod_type = py ''countable''\<rparr>,
        \<lparr>prod_id = py ''coal'', prod_name = py ''Coal'', prod_type = py ''loose''\<rparr>]"
  "map bld_id (mnbList ex_final) = [py ''smelter-1'', py ''furnace-2'']"
  by (simp_all add: ex_final_def ex_simps run_simps char_simps)

section \<open>Icons\<close>

text \<open>
  C9, amended. At the end of a run the icon list holds, in this order, one entry for
  each product of the products file that is in the product list and whose display
  name no earlier product of the list bears (the seeded defaults included), under the
  product's normalized id, followed by one entry for each building of the building
  list, under the building's normalized id. A seeded default product and a product
  with an already registered display name are in the product list without an icon
  entry.
\<close>

theorem icons_registered:
  assumes "run_state pd bd = Inr st"
  shows "map icon_id (iconList st)
         = map prod_id (with_icon (map snd DEFAULT_PRODUCTS) (file_products st))
           @ map bld_id (mnbList st)"
proof -
  let ?st0 = "read_products pd (add_defaults initial_state)"
  have inv: "products_inv ?st0" by (rule products_inv_read)
  note f = run_state_fields[OF assms]
  have fp: "file_products st = file_products ?st0"
    by (simp add: file_products_def f(3))
  have "map icon_id (iconList ?st0)
         = map prod_id (with_icon (map snd DEFAULT_PRODUCTS) (file_products st))"
    using inv by (simp add: products_inv_def fp)
  moreover have "map bld_id (mnbList st)
      = map icon_id (map icon_of (filter (accepted (ids st) (prodIndex st)) (bd_machines_and_buildings bd)))"
    by (subst f(4)) (simp add: building_of_def icon_of_def comp_def)
  ultimately show ?thesis by (subst f(5)) simp
qed

theorem icons_registered_witness:
  "run_state ex_products ex_buildings = Inr ex_final
   \<and> product_ids ex_final = [py ''worker'', py ''iron'', py ''steel'', py ''coal'']
   \<and> icon_ids ex_final = [py ''iron'', py ''coal'', py ''smelter-1'', py ''furnace-2'']"
  using icons_registered[of ex_products ex_buildings ex_final]
  by (simp add: ex_run ex_final_fields icon_ids_def product_ids_def file_products_def
      DEFAULT_PRODUCTS_def py_simps)

text \<open>
  C9 as stated fails: the product \<open>Product_Steel\<close> named Iron comes after
  \<open>Product_Iron\<close> named Iron; it is in the product list under the id \<open>steel\<close> and
  no icon entry has that id (nor has the seeded product \<open>worker\<close> one).
\<close>

theorem icons_registered_counterexample:
  "map_sum id product_ids (run_state
     \<lparr>pd_game_version = py ''1'',
      pd_products = [\<lparr>rp_type = py ''CountableProductProto'', rp_id = py ''Product_Iron'',
                      rp_name = py ''Iron'', rp_icon_path = py ''a.png''\<rparr>,
                     \<lparr>rp_type = py ''CountableProductProto'', rp_id = py ''Product_Steel'',
                      rp_name = py ''Iron'', rp_icon_path = py ''b.png''\<rparr>]\<rparr>
     \<lparr>bd_game_version = py ''1'', bd_machines_and_buildings = []\<rparr>)
     = Inr [py ''worker'', py ''iron'', py ''steel'']
   \<and> map_sum id icon_ids (run_state
     \<lparr>pd_game_version = py ''1'',
      pd_products = [\<lparr>rp_type = py ''CountableProductProto'', rp_id = py ''Product_Iron'',
                      rp_name = py ''Iron'', rp_icon_path = py ''a.png''\<rparr>,
                     \<lparr>rp_type = py ''CountableProductProto'', rp_id = py ''Product_Steel'',
                      rp_name = py ''Iron'', rp_icon_path = py ''b.png''\<rparr>]\<rparr>
     \<lparr>bd_game_version = py ''1'', bd_machines_and_buildings = []\<rparr>)
     = Inr [py ''iron'']"
  by (simp add: run_simps char_simps spec_simps)

section \<open>Recipe ids\<close>

lemma rec_id_emitted: "rec_id (emitted f rid idx rcp) = rid"
  by (simp add: emitted_def)

text \<open>
  C4. In a run that completes, let \<open>enc\<close> be the recipes of all accepted buildings in
  encounter order. The recipe at position \<open>k\<close>, when it is emitted, has the id
  \<open>disambiguated r n\<close> where \<open>r\<close> is its normalized id and \<open>n\<close> counts the recipes of
  \<open>enc\<close> up to and including position \<open>k\<close> that normalize to \<open>r\<close>, whatever building
  they belong to: \<open>r\<close> itself for \<open>n = 1\<close>, and \<open>r\<close>, a hyphen and the character with code
  point \<open>95 + n\<close> for \<open>n \<ge> 2\<close> (\<open>r-a\<close> for the second occurrence, \<open>r-b\<close> for the third).
  The counter kept for \<open>r\<close> ends as the number of recipes of \<open>enc\<close> that normalize to
  \<open>r\<close>.
\<close>

theorem recipe_ids_by_occurrence:
  assumes "run_state pd bd = Inr st"
  defines "enc \<equiv> encountered (ids st) (prodIndex st) (bd_machines_and_buildings bd)"
  shows "map rec_id (recipeList st)
         = map (\<lambda>k. disambiguated (norm_id (enc ! k))
                      (count_list (take (Suc k) (map norm_id enc)) (norm_id (enc ! k))))
             (filter (\<lambda>k. retained (prodIndex st) (snd (enc ! k))) [0..<length enc])
       \<and> counter st = count_list (map norm_id enc)
       \<and> disambiguated r 1 = r \<and> disambiguated r 2 = r @ py ''-a''
       \<and> disambiguated r 3 = r @ py ''-b''
       \<and> (2 \<le> n \<longrightarrow> disambiguated r n = r @ py ''-'' @ [95 + n])"
proof -
  note f = run_state_fields[OF assms(1)]
  have "map rec_id (recipeList st)
         = map (\<lambda>k. disambiguated (norm_id (enc ! k))
                      (count_list (take (Suc k) (map norm_id enc)) (norm_id (enc ! k))))
             (filter (\<lambda>k. retained (prodIndex st) (snd (enc ! k))) [0..<length enc])"
    by (subst f(6)) (simp add: spec_recipes_by_index enc_def rec_id_emitted comp_def)
  moreover have "counter st = count_list (map norm_id enc)"
    by (simp add: enc_def f(7)[symmetric])
  ultimately show ?thesis
    by (simp add: disambiguated_def py_simps)
qed

theorem recipe_ids_by_occurrence_witness:
  "run_state ex_products ex_buildings = Inr ex_final
   \<and> map rec_id (recipeList ex_final)
       = [py ''smelt-iron'', py ''smelt-iron-b'', py ''smelt-iron-c'']
   \<and> counter ex_final (py ''smelt-iron'') = 4"
  using recipe_ids_by_occurrence[of ex_products ex_buildings ex_final "py ''smelt-iron''" 3]
  by (simp add: ex_run ex_final_fields ex_buildings_list ex_smelter_def ex_furnace_def
      char_simps accepted_def encountered_def retained_def resolves_def resolved_def
      disambiguated_def norm_id_def consumption_def convertCod2FL_def dict_in_def)

section \<open>Which recipes are kept\<close>




lemma nth_in_take: "k < i \<Longrightarrow> k < length xs \<Longrightarrow> xs ! k \<in> set (take i xs)"
  by (auto simp: in_set_conv_nth intro!: exI[of _ k])

lemma nth_in_drop_take:
  assumes "i < k" "k < j" "k < length xs"
  shows "xs ! k \<in> set (drop (Suc i) (take j xs))"
proof -
  have "(drop (Suc i) (take j xs)) ! (k - Suc i) = xs ! k"
    using assms by simp
  moreover have "k - Suc i < length (drop (Suc i) (take j xs))"
    using assms by simp
  ultimately show ?thesis by (metis nth_mem)
qed

lemma count_list_take_mono:
  "j \<le> k \<Longrightarrow> count_list (take j xs) x \<le> count_list (take k xs) x"
proof -
  assume "j \<le> k"
  then have "take k xs = take j xs @ drop j (take k xs)"
    by (metis append_take_drop_id min.absorb1 take_take)
  then have "count_list (take k xs) x = count_list (take j xs) x + count_list (drop j (take k xs)) x"
    by (metis count_list_append)
  then show ?thesis by simp
qed

lemma second_occurrence:
  assumes "i < j" "j < length rs" "rs ! i = r" "rs ! j = r"
    and "r \<notin> set (take i rs)" and "r \<notin> set (drop (Suc i) (take j rs))"
  shows "count_list (take (Suc j) rs) r = 2"
proof -
  have a: "take (Suc j) rs = take j rs @ [r]"
    using assms by (simp add: take_Suc_conv_app_nth)
  have "take j rs = take (Suc i) (take j rs) @ drop (Suc i) (take j rs)"
    by (rule append_take_drop_id[symmetric])
  moreover have "take (Suc i) (take j rs) = take i rs @ [r]"
    using assms by (simp add: min_def take_Suc_conv_app_nth)
  ultimately have b: "take j rs = take i rs @ [r] @ drop (Suc i) (take j rs)" by simp
  have "count_list (take j rs) r = 1"
    by (subst b) (simp add: assms(5,6) count_list_0_iff)
  then show ?thesis by (simp add: a)
qed

text \<open>
  C10. The counter counts dropped recipes too. In a run that completes, let the
  recipe at position \<open>i\<close> of the encounter order be the first that normalizes to \<open>r\<close>
  and the recipe at position \<open>j\<close> the second, in whatever buildings; let the first be
  dropped (an ingredient does not resolve, or the resolved output map is empty) and
  the second be kept. Then the second is in the recipe list of the output under the
  id \<open>r-a\<close>, the counter of \<open>r\<close> is at least 2, and every kept recipe that normalizes to
  \<open>r\<close> is at least the second occurrence, so that (by the id rule above) none of them
  bears the bare id \<open>r\<close>.
\<close>

theorem dropped_recipe_counts:
  assumes "run_state pd bd = Inr st"
  defines "enc \<equiv> encountered (ids st) (prodIndex st) (bd_machines_and_buildings bd)"
  assumes "i < j" and "j < length enc"
    and "norm_id (enc ! i) = r" and "norm_id (enc ! j) = r"
    and "r \<notin> set (take i (map norm_id enc))"
    and "r \<notin> set (drop (Suc i) (take j (map norm_id enc)))"
    and "\<not> retained (prodIndex st) (snd (enc ! i))"
    and "retained (prodIndex st) (snd (enc ! j))"
  shows "emitted (fst (enc ! j)) (r @ py ''-a'') (prodIndex st) (snd (enc ! j))
           \<in> set (recipeList st)
       \<and> 2 \<le> counter st r
       \<and> (\<forall>k. k < length enc \<and> norm_id (enc ! k) = r \<and> retained (prodIndex st) (snd (enc ! k))
              \<longrightarrow> 2 \<le> count_list (take (Suc k) (map norm_id enc)) r)"
proof -
  let ?rs = "map norm_id enc"
  note f = run_state_fields[OF assms(1)]
  have ri: "?rs ! i = r" and rj: "?rs ! j = r" and lj: "j < length ?rs"
    using assms by simp_all
  have two: "count_list (take (Suc j) ?rs) r = 2"
    using second_occurrence[OF assms(3) lj ri rj assms(7,8)] .
  have rl: "recipeList st =
     map (\<lambda>k. emitted (fst (enc ! k))
                 (disambiguated (norm_id (enc ! k))
                    (0 + count_list (take (Suc k) ?rs) (norm_id (enc ! k))))
                 (prodIndex st) (snd (enc ! k)))
         (filter (\<lambda>k. retained (prodIndex st) (snd (enc ! k))) [0..<length enc])"
    by (subst f(6)) (simp only: spec_recipes_by_index enc_def)
  have "j \<in> set (filter (\<lambda>k. retained (prodIndex st) (snd (enc ! k))) [0..<length enc])"
    using assms by simp
  then have "emitted (fst (enc ! j))
                 (disambiguated (norm_id (enc ! j))
                    (0 + count_list (take (Suc j) ?rs) (norm_id (enc ! j))))
                 (prodIndex st) (snd (enc ! j)) \<in> set (recipeList st)"
    unfolding rl set_map by (rule imageI)
  then have a: "emitted (fst (enc ! j)) (r @ py ''-a'') (prodIndex st) (snd (enc ! j))
           \<in> set (recipeList st)"
    by (simp add: assms(6) two disambiguated_def py_simps)
  have "count_list (take (Suc j) ?rs) r \<le> count_list (take (length ?rs) ?rs) r"
    using lj by (intro count_list_take_mono) simp
  with two have "2 \<le> count_list ?rs r" by simp
  then have b: "2 \<le> counter st r"
    by (simp add: f(7) enc_def)
  have c: "2 \<le> count_list (take (Suc k) ?rs) r"
    if k: "k < length enc" "norm_id (enc ! k) = r" "retained (prodIndex st) (snd (enc ! k))" for k
  proof -
    have "k \<noteq> i" using k assms(9) by auto
    moreover have "\<not> k < i"
      using nth_in_take[of k i ?rs] k assms(7) by auto
    ultimately have ik: "i < k" by simp
    have "\<not> k < j"
      using nth_in_drop_take[OF ik, of j ?rs] k assms(8) by auto
    then have "Suc j \<le> Suc k" by simp
    from count_list_take_mono[OF this, of ?rs r] two show ?thesis by simp
  qed
  from a b c show ?thesis by blast
qed

lemma ex_drop_run: "run_state ex_products ex_drop = Inr ex_drop_final"
  by (simp add: ex_drop_final_def ex_simps run_simps char_simps)

lemma ex_drop_fields:
  "ids ex_drop_final = {}"
  "prodIndex ex_drop_final
     = [(py ''Workers'', py ''worker''), (py ''Iron'', py ''iron''), (py ''Coal'', py ''coal'')]"
  "map rec_id (recipeList ex_drop_final) = [py ''cast-steel'', py ''smelt-iron-a'']"
  "recipeIds ex_drop_final = [(py ''smelt-iron'', 2), (py ''cast-steel'', 1)]"
  by (simp_all add: ex_drop_final_def ex_simps run_simps char_simps)

theorem dropped_recipe_counts_witness:
  "run_state ex_products ex_drop = Inr ex_drop_final
   \<and> \<not> retained (prodIndex ex_drop_final) (rb_recipes ex_mill ! 0)
   \<and> retained (prodIndex ex_drop_final) (rb_recipes ex_press ! 0)
   \<and> emitted (py ''press'') (py ''smelt-iron-a'') (prodIndex ex_drop_final)
        (rb_recipes ex_press ! 0) \<in> set (recipeList ex_drop_final)
   \<and> map rec_id (recipeList ex_drop_final) = [py ''cast-steel'', py ''smelt-iron-a'']
   \<and> counter ex_drop_final (py ''smelt-iron'') = 2"
proof -
  let ?enc = "encountered (ids ex_drop_final) (prodIndex ex_drop_final)
                (bd_machines_and_buildings ex_drop)"
  have enc: "?enc = [(py ''mill'', rb_recipes ex_mill ! 0), (py ''mill'', rb_recipes ex_mill ! 1),
                     (py ''press'', rb_recipes ex_press ! 0)]"
    by (simp add: encountered_def accepted_def consumption_def ex_drop_fields ex_drop_def
        ex_mill_def ex_press_def convertCod2FL_def char_simps)
  have ns: "map norm_id ?enc = [py ''smelt-iron'', py ''cast-steel'', py ''smelt-iron'']"
    by (simp add: enc norm_id_def ex_mill_def ex_press_def convertCod2FL_def char_simps)
  have h1: "(0::nat) < 2" and h2: "2 < length ?enc" by (simp_all add: enc)
  have h3: "norm_id (?enc ! 0) = py ''smelt-iron''" and h4: "norm_id (?enc ! 2) = py ''smelt-iron''"
    using ns by (simp_all add: enc)
  have h5: "py ''smelt-iron'' \<notin> set (take 0 (map norm_id ?enc))" by simp
  have h6: "py ''smelt-iron'' \<notin> set (drop (Suc 0) (take 2 (map norm_id ?enc)))"
    by (simp add: ns py_simps)
  have d: "\<not> retained (prodIndex ex_drop_final) (rb_recipes ex_mill ! 0)"
    by (simp add: retained_def resolves_def dict_in_def ex_drop_fields ex_mill_def py_simps)
  have k: "retained (prodIndex ex_drop_final) (rb_recipes ex_press ! 0)"
    by (simp add: retained_def resolves_def resolved_def dict_in_def ex_drop_fields
        ex_press_def py_simps)
  have h7: "\<not> retained (prodIndex ex_drop_final) (snd (?enc ! 0))"
    using d by (simp add: enc)
  have h8: "retained (prodIndex ex_drop_final) (snd (?enc ! 2))"
    using k by (simp add: enc)
  from dropped_recipe_counts[OF ex_drop_run h1 h2 h3 h4 h5 h6 h7 h8]
  have e: "emitted (py ''press'') (py ''smelt-iron-a'') (prodIndex ex_drop_final)
          (rb_recipes ex_press ! 0) \<in> set (recipeList ex_drop_final)"
    by (simp add: enc py_simps)
  have c: "counter ex_drop_final (py ''smelt-iron'') = 2"
    by (simp add: counter_def dict_get_def ex_drop_fields)
  show ?thesis
    by (intro conjI ex_drop_run d k e c ex_drop_fields(3))
qed

section \<open>Products with a duplicate display name\<close>

lemma main_Inr:
  assumes "main pd bd = Inr out"
  shows "\<exists>st. run_state pd bd = Inr st \<and> out = make_output (pd_game_version pd) st"
  using assms by (auto simp: main_def split: sum.splits)

text \<open>
  C7. Let a product entry of the products file pass the type check, the id check and
  the test against \<open>ids\<close>, and let its display name be in the name index already when
  the entry is reached. Then the entry leaves the name index as it is (and adds no
  icon), its product record is appended to the product list, and in a run that
  completes the record is among the items of the output.
\<close>

theorem duplicate_name_keeps_product:
  assumes "main \<lparr>pd_game_version = v, pd_products = before @ item # after\<rparr> bd = Inr out"
  defines "st \<equiv> fold process_product before (add_defaults initial_state)"
  assumes "match_ProdType (rp_type item) = Some g1" and "dict_in g1 PRODUCT_TYPES"
    and "match_Product (rp_id item) = Some g2" and "convertCod2FL g2 \<notin> ids st"
    and "dict_in (rp_name item) (prodIndex st)"
  shows "prodIndex (process_product item st) = prodIndex st
       \<and> prodList (process_product item st)
           = prodList st @ [\<lparr>prod_id = convertCod2FL g2, prod_name = rp_name item,
                             prod_type = lower g1\<rparr>]
       \<and> iconList (process_product item st) = iconList st
       \<and> Product_item (convertCod2FL g2) (rp_name item) (lower g1) 0 \<in> set (out_items out)"
proof -
  let ?r = "\<lparr>prod_id = convertCod2FL g2, prod_name = rp_name item, prod_type = lower g1\<rparr>"
  let ?pd = "\<lparr>pd_game_version = v, pd_products = before @ item # after\<rparr>"
  have step: "prodIndex (process_product item st) = prodIndex st"
    "prodList (process_product item st) = prodList st @ [?r]"
    "iconList (process_product item st) = iconList st"
    using assms(3-7) by (simp_all add: process_product_def Let_def print_def)
  from main_Inr[OF assms(1)] obtain fin where
    fin: "run_state ?pd bd = Inr fin" "out = make_output v fin"
    by auto
  have "read_products ?pd (add_defaults initial_state)
          = fold process_product after (process_product item st)"
    by (simp add: read_products_def st_def)
  with run_state_fields(3)[OF fin(1)]
  have "prodList fin = prodList (fold process_product after (process_product item st))"
    by simp
  with prodList_fold[of after "process_product item st"] obtain xs where
    "prodList fin = prodList st @ [?r] @ xs"
    by (auto simp: step(2))
  then have "Product_item (convertCod2FL g2) (rp_name item) (lower g1) 0 \<in> set (out_items out)"
    by (simp add: fin(2) make_output_def getItems_def image_iff)
  with step show ?thesis by simp
qed

lemma ex_main: "main ex_products ex_buildings = Inr ex_output"
  by (simp add: ex_output_def main_def ex_run)

theorem duplicate_name_keeps_product_witness:
  "main ex_products ex_buildings = Inr ex_output
   \<and> dict_in (rp_name ex_steel)
        (prodIndex (fold process_product [ex_iron] (add_defaults initial_state)))
   \<and> Product_item (py ''steel'') (py ''Iron'') (py ''countable'') 0 \<in> set (out_items ex_output)
   \<and> map_of (prodIndex ex_final) (py ''Iron'') = Some (py ''iron'')"
proof -
  have m: "main \<lparr>pd_game_version = py ''0.5'', pd_products = [ex_iron] @ ex_steel # [ex_coal]\<rparr>
             ex_buildings = Inr ex_output"
    using ex_main by (simp add: ex_products_def)
  have h1: "match_ProdType (rp_type ex_steel) = Some (py ''Countable'')"
    by (simp add: ex_steel_def match_ProdType_def char_simps)
  have h2: "dict_in (py ''Countable'') PRODUCT_TYPES"
    by (simp add: dict_in_def PRODUCT_TYPES_def py_simps)
  have h3: "match_Product (rp_id ex_steel) = Some (py ''Steel'')"
    by (simp add: ex_steel_def match_Product_def char_simps)
  have h4: "convertCod2FL (py ''Steel'')
              \<notin> ids (fold process_product [ex_iron] (add_defaults initial_state))"
    by (simp add: ex_iron_def run_simps char_simps)
  have h5: "dict_in (rp_name ex_steel)
              (prodIndex (fold process_product [ex_iron] (add_defaults initial_state)))"
    by (simp add: ex_iron_def ex_steel_def run_simps char_simps)
  have c: "convertCod2FL (py ''Steel'') = py ''steel''" "lower (py ''Countable'') = py ''countable''"
    "rp_name ex_steel = py ''Iron''"
    by (simp_all add: convertCod2FL_def char_simps ex_steel_def)
  from duplicate_name_keeps_product[OF m h1 h2 h3 h4 h5]
  have "Product_item (py ''steel'') (py ''Iron'') (py ''countable'') 0 \<in> set (out_items ex_output)"
    by (simp only: c)
  moreover have "map_of (prodIndex ex_final) (py ''Iron'') = Some (py ''iron'')"
    by (simp add: ex_final_fields py_simps)
  ultimately show ?thesis using ex_main h5 by simp
qed

end
